theory Spec2Isabelle
  imports Complex_Main
begin

section \<open>IP Freely main window: a shallow embedding of IpFreelyMainWindow.cpp\<close>

text \<open>
  The main window owns four camera slots. Every slot handler of the C++ file exists four
  times (\<open>on_connect1ToolButton_clicked\<close> ... \<open>on_connect4ToolButton_clicked\<close>); the four
  copies differ in the camera identifier and the widgets only, so each family is one
  function here, taking the identifier. Member variables become the fields of the record
  \<open>MainWindow\<close>, \<open>std::map\<close> becomes a partial function, widgets become records in a store
  indexed by the widget, and every handler takes the window and returns the new one.
\<close>

subsection \<open>Camera identifiers, regions, cameras\<close>

text \<open>\<open>ipfreely::eCamId\<close>: the values the switch statements of the file enumerate.\<close>

datatype eCamId = noCam | cam1 | cam2 | cam3 | cam4

subsection \<open>The type double\<close>

text \<open>
  An IEEE 754 binary64 value is a rational, an infinity or a NaN. Every arithmetic
  operation computes the exact result and rounds it to 53 significant bits, ties to even
  (\<open>fl\<close>). The exponent range is not modelled: \<open>fl\<close> is the rounding of binary64 for
  magnitudes between \<open>2^-1022\<close> and \<open>2^1024\<close>, which holds every quotient and product
  of two 32-bit integers. Zero carries no sign; the divisors of this file are converted
  from widths and heights, which are never negative, so a negative zero does not arise
  as a divisor.
\<close>

datatype double = Finite rat | PosInf | NegInf | NaN

fun bitlen :: "nat \<Rightarrow> nat" where
  "bitlen n = (if n = 0 then 0 else Suc (bitlen (n div 2)))"

declare bitlen.simps [simp del]

text \<open>\<open>ilog2 x\<close> is the binary exponent of a positive rational: \<open>2^e \<le> x < 2^(e+1)\<close>.\<close>

definition ilog2 :: "rat \<Rightarrow> int" where
  "ilog2 x = (if 1 \<le> x then int (bitlen (nat \<lfloor>x\<rfloor>)) - 1
              else - int (bitlen (nat (\<lceil>1 / x\<rceil> - 1))))"

definition round_half_even :: "rat \<Rightarrow> int" where
  "round_half_even x =
     (let f = \<lfloor>x\<rfloor>; d = x - of_int f
      in if d < 1 / 2 then f
         else if 1 / 2 < d then f + 1
         else if even f then f else f + 1)"

definition fl :: "rat \<Rightarrow> rat" where
  "fl x = (if x = 0 then 0
           else let e = ilog2 \<bar>x\<bar> - 52;
                    m = round_half_even (\<bar>x\<bar> / (2 powi e))
                in sgn x * of_int m * (2 powi e))"

text \<open>\<open>static_cast<double>(n)\<close> for an \<open>int\<close>: exact.\<close>

definition to_double :: "int \<Rightarrow> double" where
  "to_double n = Finite (of_int n)"

fun ddiv :: "double \<Rightarrow> double \<Rightarrow> double" where
  "ddiv NaN _ = NaN"
| "ddiv _ NaN = NaN"
| "ddiv (Finite x) (Finite y) =
     (if y \<noteq> 0 then Finite (fl (x / y))
      else if x = 0 then NaN else if 0 < x then PosInf else NegInf)"
| "ddiv (Finite x) PosInf = Finite 0"
| "ddiv (Finite x) NegInf = Finite 0"
| "ddiv PosInf (Finite y) = (if 0 \<le> y then PosInf else NegInf)"
| "ddiv NegInf (Finite y) = (if 0 \<le> y then NegInf else PosInf)"
| "ddiv PosInf PosInf = NaN"
| "ddiv PosInf NegInf = NaN"
| "ddiv NegInf PosInf = NaN"
| "ddiv NegInf NegInf = NaN"

fun dmul :: "double \<Rightarrow> double \<Rightarrow> double" where
  "dmul NaN _ = NaN"
| "dmul _ NaN = NaN"
| "dmul (Finite x) (Finite y) = Finite (fl (x * y))"
| "dmul (Finite x) PosInf = (if x = 0 then NaN else if 0 < x then PosInf else NegInf)"
| "dmul (Finite x) NegInf = (if x = 0 then NaN else if 0 < x then NegInf else PosInf)"
| "dmul PosInf (Finite y) = (if y = 0 then NaN else if 0 < y then PosInf else NegInf)"
| "dmul NegInf (Finite y) = (if y = 0 then NaN else if 0 < y then NegInf else PosInf)"
| "dmul PosInf PosInf = PosInf"
| "dmul PosInf NegInf = NegInf"
| "dmul NegInf PosInf = NegInf"
| "dmul NegInf NegInf = PosInf"

text \<open>\<open>a < b\<close> on doubles: false as soon as one side is a NaN.\<close>

fun dless :: "double \<Rightarrow> double \<Rightarrow> bool" where
  "dless (Finite x) (Finite y) = (x < y)"
| "dless (Finite x) PosInf = True"
| "dless NegInf (Finite y) = True"
| "dless NegInf PosInf = True"
| "dless _ _ = False"

text \<open>
  \<open>static_cast<int>(d)\<close> truncates towards zero. The conversion of a NaN, of an infinity
  or of a value outside the range of \<open>int\<close> is undefined behaviour: \<open>None\<close>.
\<close>

definition trunc :: "rat \<Rightarrow> int" where
  "trunc x = (if 0 \<le> x then \<lfloor>x\<rfloor> else \<lceil>x\<rceil>)"

fun to_int :: "double \<Rightarrow> int option" where
  "to_int (Finite x) =
     (if - 2147483648 \<le> trunc x \<and> trunc x \<le> 2147483647 then Some (trunc x) else None)"
| "to_int _ = None"

subsection \<open>Qt value types: QRect, QRectF, QImage\<close>

text \<open>
  \<open>QRect\<close> stores its two corners; \<open>QRect(x, y, w, h)\<close> has the right edge \<open>x + w - 1\<close>
  and the bottom edge \<open>y + h - 1\<close>, and the default rectangle is \<open>(0, 0, -1, -1)\<close>.
\<close>

record QRect =
  r_left :: int
  r_top :: int
  r_right :: int
  r_bottom :: int

definition QRect_xywh :: "int \<Rightarrow> int \<Rightarrow> int \<Rightarrow> int \<Rightarrow> QRect" where
  "QRect_xywh x y w h = \<lparr>r_left = x, r_top = y, r_right = x + w - 1, r_bottom = y + h - 1\<rparr>"

definition r_width :: "QRect \<Rightarrow> int" where
  "r_width r = r_right r - r_left r + 1"

definition r_height :: "QRect \<Rightarrow> int" where
  "r_height r = r_bottom r - r_top r + 1"

text \<open>\<open>QRect::isNull\<close>: width and height are both 0.\<close>

definition isNull :: "QRect \<Rightarrow> bool" where
  "isNull r = (r_right r = r_left r - 1 \<and> r_bottom r = r_top r - 1)"

text \<open>\<open>QRect::isValid\<close>: the rectangle holds at least one pixel.\<close>

definition isValid :: "QRect \<Rightarrow> bool" where
  "isValid r = (r_left r \<le> r_right r \<and> r_top r \<le> r_bottom r)"

text \<open>
  \<open>QRect::intersects\<close>: false when one rectangle is null; otherwise each rectangle is
  normalised (a negative extent swaps the two edges) and the two must overlap on both
  axes.
\<close>

definition intersects :: "QRect \<Rightarrow> QRect \<Rightarrow> bool" where
  "intersects a b =
     (if isNull a \<or> isNull b then False
      else
        let l1 = (if r_width a < 0 then r_right a else r_left a);
            r1 = (if r_width a < 0 then r_left a else r_right a);
            l2 = (if r_width b < 0 then r_right b else r_left b);
            r2 = (if r_width b < 0 then r_left b else r_right b)
        in if r2 < l1 \<or> r1 < l2 then False
           else
             let t1 = (if r_height a < 0 then r_bottom a else r_top a);
                 b1 = (if r_height a < 0 then r_top a else r_bottom a);
                 t2 = (if r_height b < 0 then r_bottom b else r_top b);
                 b2 = (if r_height b < 0 then r_top b else r_bottom b)
             in if b2 < t1 \<or> b1 < t2 then False else True)"

text \<open>The pixels of a rectangle.\<close>

definition r_contains :: "QRect \<Rightarrow> int \<Rightarrow> int \<Rightarrow> bool" where
  "r_contains r x y = (r_left r \<le> x \<and> x \<le> r_right r \<and> r_top r \<le> y \<and> y \<le> r_bottom r)"

text \<open>\<open>QRectF\<close>: left, top, width and height as doubles.\<close>

record QRectF =
  f_left :: double
  f_top :: double
  f_width :: double
  f_height :: double

text \<open>
  \<open>IpCamera::point_t\<close> is a pair of doubles and \<open>IpCamera::region_t\<close> a pair of points:
  the left top corner and the width and height, as fractions of the frame.
\<close>

type_synonym point_t = "double \<times> double"
type_synonym region_t = "point_t \<times> point_t"
type_synonym regions_t = "region_t list"

text \<open>
  A \<open>QImage\<close> is its size, the frame its pixels were taken from, and what a \<open>QPainter\<close>
  has drawn on it since, in drawing order.
\<close>

datatype GlobalColor = cyan | red | green | white

datatype paint_op =
    DrawRect GlobalColor QRect
  | DrawText GlobalColor QRect string

record QImage =
  img_width :: int
  img_height :: int
  img_pixels :: nat
  img_painted :: "paint_op list"

definition null_image :: QImage where
  "null_image = \<lparr>img_width = 0, img_height = 0, img_pixels = 0, img_painted = []\<rparr>"

definition img_isNull :: "QImage \<Rightarrow> bool" where
  "img_isNull img = (img_width img \<le> 0 \<or> img_height img \<le> 0)"

definition img_rect :: "QImage \<Rightarrow> QRect" where
  "img_rect img = QRect_xywh 0 0 (img_width img) (img_height img)"

text \<open>
  \<open>QSize::scaled(s, Qt::KeepAspectRatio)\<close>: the largest size of the aspect ratio of
  \<open>(wd, ht)\<close> that fits into \<open>s\<close>, computed in integers.
\<close>

definition QSize_scaled :: "int \<times> int \<Rightarrow> int \<times> int \<Rightarrow> int \<times> int" where
  "QSize_scaled sz s =
     (let wd = fst sz; ht = snd sz; sw = fst s; sh = snd s
      in if wd = 0 \<or> ht = 0 then s
         else let rw = sh * wd div ht
              in if rw \<le> sw then (rw, sh) else (sw, sw * ht div wd))"

text \<open>
  \<open>QImage::scaled(w, h, Qt::KeepAspectRatio, Qt::SmoothTransformation)\<close>: a null image
  for a null image or an empty target size; otherwise a copy of the size
  \<open>QSize_scaled\<close> gives, each side at least 1.
\<close>

definition QImage_scaled :: "int \<Rightarrow> int \<Rightarrow> QImage \<Rightarrow> QImage" where
  "QImage_scaled w h img =
     (if img_isNull img \<or> w < 1 \<or> h < 1 then null_image
      else let s = QSize_scaled (img_width img, img_height img) (w, h)
           in img\<lparr>img_width := max (fst s) 1, img_height := max (snd s) 1\<rparr>)"

subsection \<open>The camera database, the preferences and the stream processor\<close>

text \<open>
  \<open>ipfreely::IpCamera\<close>, with the members this file reads or writes.
\<close>

record IpCamera =
  camId :: eCamId
  description :: string
  storageHttpUrl :: string
  enableScheduledRecording :: bool
  enabledMotionRecording :: bool
  motionRegions :: regions_t

text \<open>
  Modelled from the spec: the camera configuration store \<open>m_camDb\<close>
  (class \<open>IpFreelyCameraDatabase\<close>, whose source is not part of the file) with the
  operations \<open>find(slotId) -> CameraConfig?\<close>, \<open>update(CameraConfig)\<close> and \<open>save()\<close>.
  The store keeps one configuration per identifier; \<open>update\<close> files a configuration
  under its own \<open>camId\<close>; \<open>save\<close> copies the store to the persisted one
  (\<open>camDbFile\<close> in the window's record).
\<close>

type_synonym CamDb = "eCamId \<Rightarrow> IpCamera option"

definition FindCamera :: "eCamId \<Rightarrow> CamDb \<Rightarrow> IpCamera option" where
  "FindCamera k db = db k"

definition UpdateCamera :: "IpCamera \<Rightarrow> CamDb \<Rightarrow> CamDb" where
  "UpdateCamera camera db = db(camId camera \<mapsto> camera)"

text \<open>Every stored configuration is filed under its own identifier.\<close>

definition camdb_ok :: "CamDb \<Rightarrow> bool" where
  "camdb_ok db =
     list_all (\<lambda>k. case db k of None \<Rightarrow> True | Some c \<Rightarrow> camId c = k)
       [noCam, cam1, cam2, cam3, cam4]"

type_synonym schedule_t = "bool list list"

record Preferences =
  SaveFolderPath :: string
  FileDurationInSecs :: double
  RecordingSchedule :: schedule_t
  MotionTrackingSchedule :: schedule_t

text \<open>
  The stream processor is the collaborator of a connected camera
  (\<open>ipfreely::IpFreelyStreamProcessor\<close>). The record keeps the arguments of its
  constructor and what its accessors answer at the moment: \<open>VideoFrameUpdated()\<close>,
  \<open>CurrentVideoFrame(&rect)\<close> (the frame and the motion bounding rectangle),
  \<open>OriginalFps()\<close>, \<open>CurrentFps()\<close> and \<open>VideoWritingEnabled()\<close>. The folder is the one
  of the preferences; \<open>bfs::system_complete\<close> makes it absolute.
\<close>

record stream_t =
  VideoFrameUpdated :: bool
  CurrentVideoFrame :: QImage
  CurrentMotionRect :: QRect
  OriginalFps :: double
  CurrentFps :: double
  VideoWritingEnabled :: bool

record IpFreelyStreamProcessor =
  sp_name :: string
  sp_camera :: IpCamera
  sp_folder :: string
  sp_fileDurationInSecs :: double
  sp_schedule :: schedule_t
  sp_motionSchedule :: schedule_t
  sp_stream :: stream_t

text \<open>
  What the try block of \<open>ConnectionHandler\<close> meets on one call: an exception with its
  \<open>what()\<close> text (thrown by the constructor of the stream processor or by the path
  library), or the stream of the new processor.
\<close>

type_synonym ctor_result = "string + stream_t"

subsection \<open>Widgets\<close>

datatype QIcon = designer_icon | WallCam_Connect_48 | WallCam_Disconnect_48 | Record_48 | Stop_48

record QToolButton =
  isEnabled :: bool
  isVisible :: bool
  isCheckable :: bool
  isChecked :: bool
  signalsBlocked :: bool
  icon :: QIcon
  toolTip :: string

text \<open>The tool buttons of the form: \<open>ui->camNConnectToolButton\<close> and so on, \<open>N\<close> the slot.\<close>

datatype button =
    camSettingsToolButton eCamId
  | camConnectToolButton eCamId
  | camMotionRegionsToolButton eCamId
  | camRemoveMotionRegionsToolButton eCamId
  | camRecordToolButton eCamId
  | camImageToolButton eCamId
  | camExpandToolButton eCamId
  | camStorageToolButton eCamId

text \<open>
  The title of a group box is a plain text, or the text \<open>SetFpsInTitle\<close> writes from the
  two frame rates (\<open>QString::number\<close> is not spelled out).
\<close>

datatype title_t = Title string | TitleFps string double double

record QGroupBox =
  gb_title :: title_t
  gb_toolTip :: string

text \<open>
  \<open>IpFreelyVideoFrame\<close>, the widget that shows one feed: the camera number it was
  created for, the size the layout of its slot gives it, whether it accepts a drag
  selection, and the frames \<open>SetVideoFrame\<close> handed to it, the latest first.
\<close>

record IpFreelyVideoFrame =
  vf_cameraId :: int
  vf_width :: int
  vf_height :: int
  vf_enableSelection :: bool
  vf_frames :: "QImage list"

text \<open>\<open>IpFreelyVideoForm\<close>, the expanded view of one camera.\<close>

record video_update =
  vu_frame :: QImage
  vu_fps :: double
  vu_originalFps :: double
  vu_motionRect :: QRect
  vu_isRecording :: bool
  vu_motionRegions :: regions_t

record IpFreelyVideoForm =
  vform_visible :: bool
  vform_title :: string
  vform_frames :: "video_update list"

text \<open>What \<open>DEBUG_MESSAGE_EX_ERROR\<close> logs and what \<open>QMessageBox::critical\<close> shows.\<close>

datatype message =
    FailedToFindCamera eCamId
  | FailedToFindCameraFeed eCamId
  | InvalidCameraId int
  | StreamError string string
  | CriticalBox string string

subsection \<open>The main window\<close>

record MainWindow =
  m_prefs :: Preferences
  m_camDb :: CamDb
  camDbFile :: CamDb
  m_updateFeedsTimer :: bool
  m_numConnections :: int
  m_streamProcessors :: "eCamId \<Rightarrow> IpFreelyStreamProcessor option"
  m_camFeeds :: "eCamId \<Rightarrow> IpFreelyVideoFrame option"
  m_camMotionRegions :: "eCamId \<Rightarrow> regions_t option"
  m_motionAreaSetupEnabled :: "eCamId \<Rightarrow> bool option"
  m_videoForm :: IpFreelyVideoForm
  m_videoFormId :: eCamId
  ui_button :: "button \<Rightarrow> QToolButton"
  ui_camFeedGroupBox :: "eCamId \<Rightarrow> QGroupBox"
  ui_camWidget :: "eCamId \<Rightarrow> int \<times> int"
  messages :: "message list"

text \<open>
  \<open>m_updateFeedsTimer\<close> is the timer's \<open>isActive()\<close>; \<open>ui_camWidget\<close> is the size of
  \<open>ui->camNWidget\<close>, the container whose layout holds the feed of slot \<open>N\<close>.
\<close>

definition report :: "message \<Rightarrow> MainWindow \<Rightarrow> MainWindow" where
  "report msg st = st\<lparr>messages := messages st @ [msg]\<rparr>"

definition upd_button :: "button \<Rightarrow> (QToolButton \<Rightarrow> QToolButton) \<Rightarrow> MainWindow \<Rightarrow> MainWindow" where
  "upd_button b f st = st\<lparr>ui_button := (ui_button st)(b := f (ui_button st b))\<rparr>"

definition setEnabled :: "button \<Rightarrow> bool \<Rightarrow> MainWindow \<Rightarrow> MainWindow" where
  "setEnabled b v = upd_button b (\<lambda>w. w\<lparr>isEnabled := v\<rparr>)"

definition setVisible :: "button \<Rightarrow> bool \<Rightarrow> MainWindow \<Rightarrow> MainWindow" where
  "setVisible b v = upd_button b (\<lambda>w. w\<lparr>isVisible := v\<rparr>)"

definition setIcon :: "button \<Rightarrow> QIcon \<Rightarrow> MainWindow \<Rightarrow> MainWindow" where
  "setIcon b v = upd_button b (\<lambda>w. w\<lparr>icon := v\<rparr>)"

definition setToolTip :: "button \<Rightarrow> string \<Rightarrow> MainWindow \<Rightarrow> MainWindow" where
  "setToolTip b v = upd_button b (\<lambda>w. w\<lparr>toolTip := v\<rparr>)"

text \<open>
  \<open>QAbstractButton::setChecked\<close> between \<open>blockSignals(true)\<close> and the restoring
  \<open>blockSignals(blockState)\<close>: nothing for a button that is not checkable or is in the
  state already; no signal is emitted.
\<close>

definition setChecked_blocked :: "button \<Rightarrow> bool \<Rightarrow> MainWindow \<Rightarrow> MainWindow" where
  "setChecked_blocked b v st =
     (if \<not> isCheckable (ui_button st b) \<or> isChecked (ui_button st b) = v then st
      else upd_button b (\<lambda>w. w\<lparr>isChecked := v\<rparr>) st)"

text \<open>The switch statements over \<open>camera.camId\<close>: nothing for \<open>noCam\<close>.\<close>

definition upd_groupBox :: "eCamId \<Rightarrow> (QGroupBox \<Rightarrow> QGroupBox) \<Rightarrow> MainWindow \<Rightarrow> MainWindow" where
  "upd_groupBox k f st =
     (case k of
        noCam \<Rightarrow> st
      | _ \<Rightarrow> st\<lparr>ui_camFeedGroupBox := (ui_camFeedGroupBox st)(k := f (ui_camFeedGroupBox st k))\<rparr>)"

fun camTitle :: "eCamId \<Rightarrow> string" where
  "camTitle cam1 = ''Camera 1''"
| "camTitle cam2 = ''Camera 2''"
| "camTitle cam3 = ''Camera 3''"
| "camTitle cam4 = ''Camera 4''"
| "camTitle noCam = []"

fun camName :: "eCamId \<Rightarrow> string" where
  "camName cam1 = ''Camera1''"
| "camName cam2 = ''Camera2''"
| "camName cam3 = ''Camera3''"
| "camName cam4 = ''Camera4''"
| "camName noCam = []"

fun cameraId :: "eCamId \<Rightarrow> int" where
  "cameraId cam1 = 1"
| "cameraId cam2 = 2"
| "cameraId cam3 = 3"
| "cameraId cam4 = 4"
| "cameraId noCam = 0"

subsection \<open>The motion region editor: EnableMotionRegionsSetup\<close>

text \<open>
  \<open>m[k]\<close> on a \<open>std::map\<close> inserts a value-initialised entry when the key is absent:
  the read value, and the map afterwards.
\<close>

definition map_index :: "'v \<Rightarrow> ('k \<Rightarrow> 'v option) \<Rightarrow> 'k \<Rightarrow> 'v" where
  "map_index dflt m k = (case m k of None \<Rightarrow> dflt | Some v \<Rightarrow> v)"

definition map_touch :: "'v \<Rightarrow> ('k \<Rightarrow> 'v option) \<Rightarrow> 'k \<Rightarrow> ('k \<Rightarrow> 'v option)" where
  "map_touch dflt m k = m(k \<mapsto> map_index dflt m k)"

definition EnableMotionRegionsSetup ::
  "eCamId \<Rightarrow> bool \<Rightarrow> button \<Rightarrow> button \<Rightarrow> MainWindow \<Rightarrow> MainWindow" where
  "EnableMotionRegionsSetup k enable removeRegionsBtn setMotionRegionsBtn st0 =
     (let st = setVisible removeRegionsBtn enable st0
      in case m_camFeeds st k of
           None \<Rightarrow> report (FailedToFindCameraFeed k) st
         | Some feed \<Rightarrow>
             let st = st\<lparr>m_camFeeds := (m_camFeeds st)(k \<mapsto> feed\<lparr>vf_enableSelection := enable\<rparr>)\<rparr>
             in if enable then
                  let st = (case FindCamera k (m_camDb st) of
                              None \<Rightarrow> st
                            | Some camera \<Rightarrow>
                                st\<lparr>m_camMotionRegions :=
                                      (m_camMotionRegions st)(k \<mapsto> motionRegions camera),
                                    m_motionAreaSetupEnabled :=
                                      (m_motionAreaSetupEnabled st)(k \<mapsto> True)\<rparr>)
                  in setChecked_blocked setMotionRegionsBtn True st
                else
                  st\<lparr>m_camMotionRegions := (m_camMotionRegions st)(k := None),
                      m_motionAreaSetupEnabled := (m_motionAreaSetupEnabled st)(k := None)\<rparr>)"

text \<open>
  The slot of the \<open>toggled\<close> signal of \<open>camNMotionRegionsToolButton\<close>. It passes the
  remove button for both button arguments, as the file does.
\<close>

definition on_motionDetectorRegionsToolButton_toggled :: "eCamId \<Rightarrow> bool \<Rightarrow> MainWindow \<Rightarrow> MainWindow" where
  "on_motionDetectorRegionsToolButton_toggled k checked =
     EnableMotionRegionsSetup k checked
       (camRemoveMotionRegionsToolButton k) (camRemoveMotionRegionsToolButton k)"

text \<open>
  \<open>QAbstractButton::setChecked\<close> with signals delivered: a change of the state emits
  \<open>toggled\<close>, and \<open>ConnectButtons\<close> connects that signal for the motion region buttons
  only.
\<close>

definition setChecked :: "button \<Rightarrow> bool \<Rightarrow> MainWindow \<Rightarrow> MainWindow" where
  "setChecked b v st0 =
     (if \<not> isCheckable (ui_button st0 b) \<or> isChecked (ui_button st0 b) = v then st0
      else
        let st = upd_button b (\<lambda>w. w\<lparr>isChecked := v\<rparr>) st0
        in if signalsBlocked (ui_button st0 b) then st
           else (case b of
                   camMotionRegionsToolButton k \<Rightarrow>
                     on_motionDetectorRegionsToolButton_toggled k v st
                 | _ \<Rightarrow> st))"

subsection \<open>The connection controller: ConnectionHandler\<close>

text \<open>\<open>m_videoForm->close()\<close> hides the form.\<close>

definition close_videoForm :: "MainWindow \<Rightarrow> MainWindow" where
  "close_videoForm st = st\<lparr>m_videoForm := (m_videoForm st)\<lparr>vform_visible := False\<rparr>\<rparr>"

text \<open>
  The branch of \<open>ConnectionHandler\<close> for a camera with a stream processor
  (lines 1027 to 1084): the camera is disconnected.
\<close>

definition ConnectionHandler_disconnect ::
  "IpCamera \<Rightarrow> button \<Rightarrow> button \<Rightarrow> button \<Rightarrow> button \<Rightarrow> button \<Rightarrow> button \<Rightarrow> button
     \<Rightarrow> MainWindow \<Rightarrow> MainWindow" where
  "ConnectionHandler_disconnect camera connectBtn motionRegionsBtn removeRegionsBtn recordBtn
       snapshotBtn expandBtn storageBtn st0 =
     (let k = camId camera;
          st = (if vform_visible (m_videoForm st0) \<and> m_videoFormId st0 = k
                then (close_videoForm st0)\<lparr>m_videoFormId := noCam\<rparr> else st0);
          st = st\<lparr>m_streamProcessors := (m_streamProcessors st)(k := None),
                  m_camFeeds := (m_camFeeds st)(k := None),
                  m_camMotionRegions := (m_camMotionRegions st)(k := None)\<rparr>;
          st = upd_groupBox k (\<lambda>g. g\<lparr>gb_title := Title (camTitle k),
                                         gb_toolTip := ''Not connected''\<rparr>) st;
          st = setIcon connectBtn WallCam_Connect_48 st;
          st = setToolTip connectBtn ''Connect to camera stream.'' st;
          st = setEnabled recordBtn False st;
          st = setIcon recordBtn Record_48 st;
          st = setToolTip recordBtn ''Record from camera stream.'' st;
          st = setEnabled snapshotBtn False st;
          st = setEnabled expandBtn False st;
          st = setEnabled storageBtn False st;
          st = setEnabled motionRegionsBtn False st;
          st = setChecked motionRegionsBtn False st;
          st = setVisible removeRegionsBtn False st;
          st = st\<lparr>m_camMotionRegions := (m_camMotionRegions st)(k := None),
                  m_motionAreaSetupEnabled := (m_motionAreaSetupEnabled st)(k := None)\<rparr>;
          st = st\<lparr>m_numConnections := m_numConnections st - 1\<rparr>
      in if 0 < m_numConnections st then st\<lparr>m_updateFeedsTimer := True\<rparr> else st)"

text \<open>
  The branch for a camera without a stream processor (lines 1088 to 1201). In
  \<open>m_streamProcessors[camera.camId] = std::make_shared<...>(...)\<close> the right operand is
  evaluated before the left one (the order C++17 fixes for an assignment), so an
  exception of the constructor leaves the map as it was. The catch block returns from
  the handler.
\<close>

definition ConnectionHandler_connect ::
  "IpCamera \<Rightarrow> button \<Rightarrow> button \<Rightarrow> button \<Rightarrow> button \<Rightarrow> button \<Rightarrow> button \<Rightarrow> button
     \<Rightarrow> ctor_result \<Rightarrow> MainWindow \<Rightarrow> MainWindow" where
  "ConnectionHandler_connect camera connectBtn motionRegionsBtn removeRegionsBtn recordBtn
       snapshotBtn expandBtn storageBtn attempt st0 =
     (let k = camId camera
      in case attempt of
           Inl what \<Rightarrow>
             report (CriticalBox ''Stream Error'' what) (report (StreamError (camName k) what) st0)
         | Inr stream \<Rightarrow>
             let schedule = (if enableScheduledRecording camera
                             then RecordingSchedule (m_prefs st0) else []);
                 motionSchedule = (if enabledMotionRecording camera
                                   then MotionTrackingSchedule (m_prefs st0) else []);
                 proc = \<lparr>sp_name = camName k, sp_camera = camera,
                         sp_folder = SaveFolderPath (m_prefs st0),
                         sp_fileDurationInSecs = FileDurationInSecs (m_prefs st0),
                         sp_schedule = schedule, sp_motionSchedule = motionSchedule,
                         sp_stream = stream\<rparr>;
                 st = st0\<lparr>m_streamProcessors := (m_streamProcessors st0)(k \<mapsto> proc)\<rparr>;
                 feed = \<lparr>vf_cameraId = cameraId k,
                         vf_width = fst (ui_camWidget st k), vf_height = snd (ui_camWidget st k),
                         vf_enableSelection = False, vf_frames = []\<rparr>;
                 st = upd_groupBox k (\<lambda>g. g\<lparr>gb_toolTip := description camera\<rparr>) st;
                 st = st\<lparr>m_camFeeds := (m_camFeeds st)(k \<mapsto> feed)\<rparr>;
                 st = setEnabled recordBtn (\<not> enableScheduledRecording camera) st;
                 st = setIcon recordBtn Record_48 st;
                 st = setToolTip recordBtn ''Record from camera stream.'' st;
                 st = setEnabled snapshotBtn True st;
                 st = setEnabled expandBtn True st;
                 st = setEnabled storageBtn (storageHttpUrl camera \<noteq> []) st;
                 st = setEnabled motionRegionsBtn True st;
                 st = setIcon connectBtn WallCam_Disconnect_48 st;
                 st = setToolTip connectBtn ''Disconnect from camera stream.'' st;
                 st = st\<lparr>m_numConnections := m_numConnections st + 1\<rparr>
             in st\<lparr>m_updateFeedsTimer := True\<rparr>)"

definition ConnectionHandler ::
  "IpCamera \<Rightarrow> button \<Rightarrow> button \<Rightarrow> button \<Rightarrow> button \<Rightarrow> button \<Rightarrow> button \<Rightarrow> button
     \<Rightarrow> ctor_result \<Rightarrow> MainWindow \<Rightarrow> MainWindow" where
  "ConnectionHandler camera connectBtn motionRegionsBtn removeRegionsBtn recordBtn
       snapshotBtn expandBtn storageBtn attempt st0 =
     (let st = (if m_updateFeedsTimer st0 then st0\<lparr>m_updateFeedsTimer := False\<rparr> else st0)
      in if m_streamProcessors st (camId camera) \<noteq> None
         then ConnectionHandler_disconnect camera connectBtn motionRegionsBtn removeRegionsBtn
                recordBtn snapshotBtn expandBtn storageBtn st
         else ConnectionHandler_connect camera connectBtn motionRegionsBtn removeRegionsBtn
                recordBtn snapshotBtn expandBtn storageBtn attempt st)"

text \<open>
  \<open>on_connectNToolButton_clicked\<close>, for \<open>N\<close> from 1 to 4 (\<open>k\<close> from \<open>cam1\<close> to
  \<open>cam4\<close>): the connect toggle of a slot. \<open>attempt\<close> is what the construction of a stream
  processor meets, should this call construct one.
\<close>

definition on_connectToolButton_clicked :: "eCamId \<Rightarrow> ctor_result \<Rightarrow> MainWindow \<Rightarrow> MainWindow" where
  "on_connectToolButton_clicked k attempt st =
     (case FindCamera k (m_camDb st) of
        None \<Rightarrow> report (FailedToFindCamera k) st
      | Some camera \<Rightarrow>
          ConnectionHandler camera (camConnectToolButton k) (camMotionRegionsToolButton k)
            (camRemoveMotionRegionsToolButton k) (camRecordToolButton k) (camImageToolButton k)
            (camExpandToolButton k) (camStorageToolButton k) attempt st)"

definition ShowExpandedVideoForm :: "eCamId \<Rightarrow> MainWindow \<Rightarrow> MainWindow" where
  "ShowExpandedVideoForm k st0 =
     (let st = (if vform_visible (m_videoForm st0) then close_videoForm st0 else st0);
          st = (case k of
                  noCam \<Rightarrow> st
                | _ \<Rightarrow> st\<lparr>m_videoForm := (m_videoForm st)\<lparr>vform_title := camTitle k\<rparr>\<rparr>);
          st = st\<lparr>m_videoFormId := k\<rparr>
      in st\<lparr>m_videoForm := (m_videoForm st)\<lparr>vform_visible := True\<rparr>\<rparr>)"

subsection \<open>Adding and removing motion regions\<close>

definition ReconnectCamera :: "eCamId \<Rightarrow> ctor_result \<Rightarrow> ctor_result \<Rightarrow> MainWindow \<Rightarrow> MainWindow" where
  "ReconnectCamera k attempt1 attempt2 st =
     (case k of
        noCam \<Rightarrow> st
      | _ \<Rightarrow>
          EnableMotionRegionsSetup k True
            (camRemoveMotionRegionsToolButton k) (camMotionRegionsToolButton k)
            (on_connectToolButton_clicked k attempt2 (on_connectToolButton_clicked k attempt1 st)))"

text \<open>\<open>m_camDb.UpdateCamera(camera); m_camDb.Save();\<close>\<close>

definition UpdateCamera_and_Save :: "IpCamera \<Rightarrow> MainWindow \<Rightarrow> MainWindow" where
  "UpdateCamera_and_Save camera st =
     (let db = UpdateCamera camera (m_camDb st) in st\<lparr>m_camDb := db, camDbFile := db\<rparr>)"

definition region_of :: "QRectF \<Rightarrow> region_t" where
  "region_of sel = ((f_left sel, f_top sel), (f_width sel, f_height sel))"

text \<open>
  \<open>VideoFrameAreaSelection\<close>, the callback of a completed drag on the feed of camera
  number \<open>n\<close>.
\<close>

definition VideoFrameAreaSelection ::
  "int \<Rightarrow> QRectF \<Rightarrow> ctor_result \<Rightarrow> ctor_result \<Rightarrow> MainWindow \<Rightarrow> MainWindow" where
  "VideoFrameAreaSelection n percentageSelection attempt1 attempt2 st0 =
     (case (if n = 1 then Some cam1 else if n = 2 then Some cam2
            else if n = 3 then Some cam3 else if n = 4 then Some cam4 else None) of
        None \<Rightarrow> report (InvalidCameraId n) st0
      | Some k \<Rightarrow>
          let region = region_of percentageSelection;
              st = st0\<lparr>m_camMotionRegions :=
                         (m_camMotionRegions st0)(k \<mapsto> map_index [] (m_camMotionRegions st0) k @ [region])\<rparr>
          in case FindCamera k (m_camDb st) of
               None \<Rightarrow> st
             | Some camera \<Rightarrow>
                 ReconnectCamera k attempt1 attempt2
                   (UpdateCamera_and_Save
                      (camera\<lparr>motionRegions := map_index [] (m_camMotionRegions st) k\<rparr>) st))"

text \<open>The answer to \<open>QMessageBox::question\<close> with the buttons Yes and No.\<close>

datatype StandardButton = Yes | No

definition RemoveMotionRegions ::
  "eCamId \<Rightarrow> StandardButton \<Rightarrow> ctor_result \<Rightarrow> ctor_result \<Rightarrow> MainWindow \<Rightarrow> MainWindow" where
  "RemoveMotionRegions k answer attempt1 attempt2 st0 =
     (case FindCamera k (m_camDb st0) of
        None \<Rightarrow> report (FailedToFindCamera k) st0
      | Some camera \<Rightarrow>
          if answer = No then st0
          else
            let st = st0\<lparr>m_camMotionRegions := (m_camMotionRegions st0)(k \<mapsto> [])\<rparr>
            in ReconnectCamera k attempt1 attempt2
                 (UpdateCamera_and_Save
                    (camera\<lparr>motionRegions := map_index [] (m_camMotionRegions st) k\<rparr>) st))"

subsection \<open>The frame renderer: UpdateCamFeedFrame\<close>

text \<open>
  Lines 1243 to 1275: the display frame and the scale factor \<open>scalar\<close> for a feed
  widget of the size \<open>feedW\<close> by \<open>feedH\<close>.
\<close>

definition scaleToFeed :: "int \<Rightarrow> int \<Rightarrow> QImage \<Rightarrow> (QImage \<times> double) option" where
  "scaleToFeed feedW feedH videoFrame =
     (if feedW < img_width videoFrame \<or> feedH < img_height videoFrame then
        let frameAspectRatio =
              ddiv (to_double (img_width videoFrame)) (to_double (img_height videoFrame));
            targetAspectRatio = ddiv (to_double feedW) (to_double feedH);
            newSize =
              (if dless targetAspectRatio frameAspectRatio then
                 (case to_int (ddiv (to_double feedW) frameAspectRatio) of
                    None \<Rightarrow> None
                  | Some newHeight \<Rightarrow> Some (feedW, newHeight))
               else
                 (case to_int (dmul (to_double feedH) frameAspectRatio) of
                    None \<Rightarrow> None
                  | Some newWidth \<Rightarrow> Some (newWidth, feedH)))
        in case newSize of
             None \<Rightarrow> None
           | Some (newWidth, newHeight) \<Rightarrow>
               Some (QImage_scaled newWidth newHeight videoFrame,
                     ddiv (to_double newWidth) (to_double (img_width videoFrame)))
      else Some (videoFrame, Finite 1))"

text \<open>
  Lines 1287 to 1292: the four edges of the motion rectangle, each multiplied by
  \<open>scalar\<close> and converted to \<open>int\<close>.
\<close>

definition scaleEdge :: "double \<Rightarrow> int \<Rightarrow> int option" where
  "scaleEdge scalar e = to_int (dmul (to_double e) scalar)"

definition rescaleRect :: "double \<Rightarrow> QRect \<Rightarrow> QRect option" where
  "rescaleRect scalar r =
     (case (scaleEdge scalar (r_top r), scaleEdge scalar (r_left r),
            scaleEdge scalar (r_right r), scaleEdge scalar (r_bottom r)) of
        (Some t, Some l, Some r', Some b) \<Rightarrow>
          Some \<lparr>r_left = l, r_top = t, r_right = r', r_bottom = b\<rparr>
      | _ \<Rightarrow> None)"

text \<open>
  \<open>ipfreely::CreateQRectFromVideoFrameDims(width, height, region)\<close> is declared outside
  the file; the renderer takes it as the parameter \<open>toRect\<close>.
\<close>

type_synonym toRect_t = "int \<Rightarrow> int \<Rightarrow> region_t \<Rightarrow> QRect"

text \<open>
  Lines 1281 to 1339, the painter on the display frame: the user regions in cyan (only
  when the motion areas are enabled), the motion rectangle in red or green, the
  recording label. A \<open>QPainter\<close> on a null image is not active and draws nothing.
\<close>

definition regionRects :: "toRect_t \<Rightarrow> QImage \<Rightarrow> bool \<Rightarrow> regions_t \<Rightarrow> QRect list" where
  "regionRects toRect displayFrame motionAreasEnabled motionRectAreas =
     (if motionAreasEnabled
      then map (toRect (img_width displayFrame) (img_height displayFrame)) motionRectAreas
      else [])"

definition recordingLabel :: "QImage \<Rightarrow> bool \<Rightarrow> paint_op list" where
  "recordingLabel displayFrame streamProcIsWriting =
     (let posRec = (img_rect displayFrame)\<lparr>r_top := r_top (img_rect displayFrame) + 16\<rparr>
      in if streamProcIsWriting then [DrawText red posRec ''Recording''] else [])"

definition paintAnnotations ::
  "toRect_t \<Rightarrow> QImage \<Rightarrow> QRect \<Rightarrow> bool \<Rightarrow> regions_t \<Rightarrow> bool \<Rightarrow> QImage" where
  "paintAnnotations toRect displayFrame rect motionAreasEnabled motionRectAreas streamProcIsWriting =
     (if img_isNull displayFrame then displayFrame
      else
        let rs = regionRects toRect displayFrame motionAreasEnabled motionRectAreas;
            intersectsMotionRegion = list_ex (intersects rect) rs;
            regionOps = map (DrawRect cyan) rs;
            rectOps = (if \<not> isNull rect
                       then [DrawRect (if intersectsMotionRegion then red else green) rect]
                       else [])
        in displayFrame\<lparr>img_painted := img_painted displayFrame @ regionOps @ rectOps
                             @ recordingLabel displayFrame streamProcIsWriting\<rparr>)"

text \<open>A rectangle that lies inside the bounds of a bitmap.\<close>

definition rect_within :: "QRect \<Rightarrow> QImage \<Rightarrow> bool" where
  "rect_within r img =
     (0 \<le> r_left r \<and> 0 \<le> r_top r \<and> r_right r < img_width img \<and> r_bottom r < img_height img)"

text \<open>
  Lines 1243 to 1340 as one function of the frame, the size of the feed widget, the
  motion rectangle, the motion areas and the two flags: the bitmap handed to
  \<open>SetVideoFrame\<close>. \<open>None\<close>: a conversion to \<open>int\<close> was undefined.
\<close>

definition renderDisplayFrame ::
  "toRect_t \<Rightarrow> int \<Rightarrow> int \<Rightarrow> QImage \<Rightarrow> QRect \<Rightarrow> bool \<Rightarrow> regions_t \<Rightarrow> bool \<Rightarrow> QImage option" where
  "renderDisplayFrame toRect feedW feedH videoFrame motionBoundingRect motionAreasEnabled
       motionRectAreas streamProcIsWriting =
     (case scaleToFeed feedW feedH videoFrame of
        None \<Rightarrow> None
      | Some (displayFrame, scalar) \<Rightarrow>
          if \<not> isNull motionBoundingRect \<or> streamProcIsWriting \<or> motionAreasEnabled then
            (case (if \<not> isNull motionBoundingRect then rescaleRect scalar motionBoundingRect
                   else Some motionBoundingRect) of
               None \<Rightarrow> None
             | Some rect \<Rightarrow>
                 Some (paintAnnotations toRect displayFrame rect motionAreasEnabled
                         motionRectAreas streamProcIsWriting))
          else Some displayFrame)"

definition SetVideoFrame :: "eCamId \<Rightarrow> QImage \<Rightarrow> MainWindow \<Rightarrow> MainWindow" where
  "SetVideoFrame k displayFrame st =
     (case m_camFeeds st k of
        None \<Rightarrow> st
      | Some feed \<Rightarrow>
          st\<lparr>m_camFeeds := (m_camFeeds st)(k \<mapsto> feed\<lparr>vf_frames := displayFrame # vf_frames feed\<rparr>)\<rparr>)"

text \<open>
  \<open>UpdateCamFeedFrame\<close>. Reading \<open>m_motionAreaSetupEnabled[camId]\<close> inserts \<open>false\<close> for
  an absent key, and reading \<open>m_camMotionRegions[camId]\<close> (inside the painter block,
  when the motion areas are enabled) inserts the empty list.
\<close>

definition UpdateCamFeedFrame ::
  "toRect_t \<Rightarrow> eCamId \<Rightarrow> QImage \<Rightarrow> QRect \<Rightarrow> bool \<Rightarrow> MainWindow \<Rightarrow> MainWindow option" where
  "UpdateCamFeedFrame toRect k videoFrame motionBoundingRect streamProcIsWriting st0 =
     (case m_camFeeds st0 k of
        None \<Rightarrow> Some (report (FailedToFindCameraFeed k) st0)
      | Some feed \<Rightarrow>
          let motionAreasEnabled = map_index False (m_motionAreaSetupEnabled st0) k;
              motionRectAreas = map_index [] (m_camMotionRegions st0) k
          in case renderDisplayFrame toRect (vf_width feed) (vf_height feed) videoFrame
                    motionBoundingRect motionAreasEnabled motionRectAreas streamProcIsWriting of
               None \<Rightarrow> None
             | Some displayFrame \<Rightarrow>
                 let st = st0\<lparr>m_motionAreaSetupEnabled :=
                                 map_touch False (m_motionAreaSetupEnabled st0) k\<rparr>;
                     st = (if motionAreasEnabled
                           then st\<lparr>m_camMotionRegions := map_touch [] (m_camMotionRegions st) k\<rparr>
                           else st)
                 in Some (SetVideoFrame k displayFrame st))"

subsection \<open>The poll loop: on_updateFeedsTimer\<close>

definition SetFpsInTitle :: "eCamId \<Rightarrow> double \<Rightarrow> double \<Rightarrow> MainWindow \<Rightarrow> MainWindow" where
  "SetFpsInTitle k fps originalFps =
     upd_groupBox k (\<lambda>g. g\<lparr>gb_title := TitleFps (camTitle k) fps originalFps\<rparr>)"

text \<open>The body of the loop for one entry of \<open>m_streamProcessors\<close> (lines 544 to 574).\<close>

definition pollFeed ::
  "toRect_t \<Rightarrow> eCamId \<Rightarrow> IpFreelyStreamProcessor \<Rightarrow> MainWindow \<Rightarrow> MainWindow option" where
  "pollFeed toRect k streamProcessor st0 =
     (let s = sp_stream streamProcessor
      in if VideoFrameUpdated s then
           (case UpdateCamFeedFrame toRect k (CurrentVideoFrame s) (CurrentMotionRect s)
                   (VideoWritingEnabled s) st0 of
              None \<Rightarrow> None
            | Some st1 \<Rightarrow>
                let st = SetFpsInTitle k (CurrentFps s) (OriginalFps s) st1
                in if vform_visible (m_videoForm st) \<and> m_videoFormId st = k then
                     let enabled = map_index False (m_motionAreaSetupEnabled st) k;
                         st = st\<lparr>m_motionAreaSetupEnabled :=
                                    map_touch False (m_motionAreaSetupEnabled st) k\<rparr>;
                         regions = (if enabled then map_index [] (m_camMotionRegions st) k else []);
                         st = (if enabled
                               then st\<lparr>m_camMotionRegions := map_touch [] (m_camMotionRegions st) k\<rparr>
                               else st);
                         u = \<lparr>vu_frame = CurrentVideoFrame s, vu_fps = CurrentFps s,
                              vu_originalFps = OriginalFps s, vu_motionRect = CurrentMotionRect s,
                              vu_isRecording = VideoWritingEnabled s, vu_motionRegions = regions\<rparr>
                     in Some (st\<lparr>m_videoForm :=
                                   (m_videoForm st)\<lparr>vform_frames := u # vform_frames (m_videoForm st)\<rparr>\<rparr>)
                   else Some st)
         else Some st0)"

text \<open>
  The range-based for loop over the map visits its keys in ascending order, each once.
  The body does not change \<open>m_streamProcessors\<close>.
\<close>

fun pollFeeds :: "toRect_t \<Rightarrow> eCamId list \<Rightarrow> MainWindow \<Rightarrow> MainWindow option" where
  "pollFeeds toRect [] st = Some st"
| "pollFeeds toRect (k # ks) st =
     (case m_streamProcessors st k of
        None \<Rightarrow> pollFeeds toRect ks st
      | Some streamProcessor \<Rightarrow>
          (case pollFeed toRect k streamProcessor st of
             None \<Rightarrow> None
           | Some st' \<Rightarrow> pollFeeds toRect ks st'))"

definition all_camIds :: "eCamId list" where
  "all_camIds = [noCam, cam1, cam2, cam3, cam4]"

definition on_updateFeedsTimer :: "toRect_t \<Rightarrow> MainWindow \<Rightarrow> MainWindow option" where
  "on_updateFeedsTimer toRect st = pollFeeds toRect all_camIds st"

text \<open>
  What one tick may do to the feed of slot \<open>k\<close>: nothing, or hand it one bitmap, the
  rendering of the frame which the stream processor of the slot holds at the tick, for
  the feed and the motion areas as they were when the tick began.
\<close>

definition frame_update :: "toRect_t \<Rightarrow> MainWindow \<Rightarrow> MainWindow \<Rightarrow> eCamId \<Rightarrow> bool" where
  "frame_update toRect st st' k =
     (m_camFeeds st' k = m_camFeeds st k
      \<or> (\<exists>sp feed out.
            m_streamProcessors st k = Some sp \<and> m_camFeeds st k = Some feed
          \<and> VideoFrameUpdated (sp_stream sp)
          \<and> renderDisplayFrame toRect (vf_width feed) (vf_height feed)
                (CurrentVideoFrame (sp_stream sp)) (CurrentMotionRect (sp_stream sp))
                (map_index False (m_motionAreaSetupEnabled st) k)
                (map_index [] (m_camMotionRegions st) k)
                (VideoWritingEnabled (sp_stream sp)) = Some out
          \<and> m_camFeeds st' k = Some (feed\<lparr>vf_frames := out # vf_frames feed\<rparr>)))"

text \<open>Two windows with the same stream processors and the same readings of the two
  motion area maps.\<close>

definition same_setup :: "MainWindow \<Rightarrow> MainWindow \<Rightarrow> bool" where
  "same_setup st st' =
     (m_streamProcessors st' = m_streamProcessors st
      \<and> (\<forall>j. map_index False (m_motionAreaSetupEnabled st') j =
               map_index False (m_motionAreaSetupEnabled st) j)
      \<and> (\<forall>j. map_index [] (m_camMotionRegions st') j = map_index [] (m_camMotionRegions st) j))"

subsection \<open>The constructor and runs of the connect toggle\<close>

text \<open>
  The constructor: no connection, the timer created but not started, empty maps, the
  four remove buttons hidden. \<open>setupUi\<close> builds the widgets of the designer form, which
  is not part of the file: the buttons, group boxes and container sizes of the form are
  parameters. The database is the one read from its file.
\<close>

definition IpFreelyMainWindow ::
  "Preferences \<Rightarrow> CamDb \<Rightarrow> (button \<Rightarrow> QToolButton) \<Rightarrow> (eCamId \<Rightarrow> QGroupBox) \<Rightarrow> (eCamId \<Rightarrow> int \<times> int)
     \<Rightarrow> MainWindow" where
  "IpFreelyMainWindow prefs db buttons groupBoxes widgets =
     setVisible (camRemoveMotionRegionsToolButton cam4) False
       (setVisible (camRemoveMotionRegionsToolButton cam3) False
          (setVisible (camRemoveMotionRegionsToolButton cam2) False
             (setVisible (camRemoveMotionRegionsToolButton cam1) False
                \<lparr>m_prefs = prefs, m_camDb = db, camDbFile = db,
                 m_updateFeedsTimer = False, m_numConnections = 0,
                 m_streamProcessors = Map.empty, m_camFeeds = Map.empty,
                 m_camMotionRegions = Map.empty, m_motionAreaSetupEnabled = Map.empty,
                 m_videoForm = \<lparr>vform_visible = False, vform_title = [], vform_frames = []\<rparr>,
                 m_videoFormId = noCam,
                 ui_button = buttons, ui_camFeedGroupBox = groupBoxes, ui_camWidget = widgets,
                 messages = []\<rparr>)))"

text \<open>A run of connect toggles, each with what its construction meets.\<close>

fun toggles :: "(eCamId \<times> ctor_result) list \<Rightarrow> MainWindow \<Rightarrow> MainWindow" where
  "toggles [] st = st"
| "toggles ((k, attempt) # es) st = toggles es (on_connectToolButton_clicked k attempt st)"

text \<open>The number of entries of \<open>m_streamProcessors\<close>.\<close>

definition connected_count :: "MainWindow \<Rightarrow> nat" where
  "connected_count st = length (filter (\<lambda>k. m_streamProcessors st k \<noteq> None) all_camIds)"

text \<open>The working set of motion regions of a slot, empty when the map has no entry.\<close>

definition working_set :: "MainWindow \<Rightarrow> eCamId \<Rightarrow> regions_t" where
  "working_set st k = map_index [] (m_camMotionRegions st) k"

text \<open>The motion regions a camera database holds for a slot.\<close>

definition regions_in :: "CamDb \<Rightarrow> eCamId \<Rightarrow> regions_t option" where
  "regions_in db k = map_option motionRegions (db k)"

subsection \<open>An example window\<close>

definition example_camera :: "eCamId \<Rightarrow> IpCamera" where
  "example_camera k =
     \<lparr>camId = k, description = ''Front door'', storageHttpUrl = [],
      enableScheduledRecording = False, enabledMotionRecording = True, motionRegions = []\<rparr>"

definition example_db :: CamDb where
  "example_db = [cam1 \<mapsto> example_camera cam1, cam2 \<mapsto> example_camera cam2]"

definition example_prefs :: Preferences where
  "example_prefs =
     \<lparr>SaveFolderPath = ''/var/ipfreely'', FileDurationInSecs = Finite 300,
      RecordingSchedule = [], MotionTrackingSchedule = []\<rparr>"

text \<open>
  A form whose connect buttons are enabled, whose other slot buttons wait for a
  connection, and whose motion region buttons are checkable.
\<close>

fun example_button :: "button \<Rightarrow> QToolButton" where
  "example_button (camMotionRegionsToolButton k) =
     \<lparr>isEnabled = False, isVisible = True, isCheckable = True, isChecked = False,
      signalsBlocked = False, icon = designer_icon, toolTip = []\<rparr>"
| "example_button (camConnectToolButton k) =
     \<lparr>isEnabled = True, isVisible = True, isCheckable = False, isChecked = False,
      signalsBlocked = False, icon = WallCam_Connect_48, toolTip = []\<rparr>"
| "example_button (camSettingsToolButton k) =
     \<lparr>isEnabled = True, isVisible = True, isCheckable = False, isChecked = False,
      signalsBlocked = False, icon = designer_icon, toolTip = []\<rparr>"
| "example_button b =
     \<lparr>isEnabled = False, isVisible = True, isCheckable = False, isChecked = False,
      signalsBlocked = False, icon = designer_icon, toolTip = []\<rparr>"

definition example_window :: MainWindow where
  "example_window =
     IpFreelyMainWindow example_prefs example_db example_button
       (\<lambda>k. \<lparr>gb_title = Title (camTitle k), gb_toolTip = []\<rparr>) (\<lambda>k. (640, 360))"

definition example_frame :: QImage where
  "example_frame = \<lparr>img_width = 1920, img_height = 1080, img_pixels = 1, img_painted = []\<rparr>"

definition example_stream :: stream_t where
  "example_stream =
     \<lparr>VideoFrameUpdated = True, CurrentVideoFrame = example_frame,
      CurrentMotionRect = QRect_xywh 300 300 100 100,
      OriginalFps = Finite 25, CurrentFps = Finite 25, VideoWritingEnabled = False\<rparr>"

text \<open>\<open>CreateQRectFromVideoFrameDims\<close> as the products of the sizes and the fractions.\<close>

definition example_toRect :: toRect_t where
  "example_toRect w h region =
     (case (to_int (dmul (to_double w) (fst (fst region))),
            to_int (dmul (to_double h) (snd (fst region))),
            to_int (dmul (to_double w) (fst (snd region))),
            to_int (dmul (to_double h) (snd (snd region)))) of
        (Some x, Some y, Some rw, Some rh) \<Rightarrow> QRect_xywh x y rw rh
      | _ \<Rightarrow> QRect_xywh 0 0 0 0)"

definition example_wide_frame :: QImage where
  "example_wide_frame = \<lparr>img_width = 1024, img_height = 512, img_pixels = 2, img_painted = []\<rparr>"


definition example_regions :: regions_t where
  "example_regions = [((Finite (1 / 8), Finite (1 / 8)), (Finite (1 / 4), Finite (1 / 4)))]"

text \<open>Camera 1 connected: its feed, and the bitmap its first frame is rendered to.\<close>

definition example_connected :: MainWindow where
  "example_connected = on_connectToolButton_clicked cam1 (Inr example_stream) example_window"

definition example_feed :: IpFreelyVideoFrame where
  "example_feed = \<lparr>vf_cameraId = 1, vf_width = 640, vf_height = 360,
                    vf_enableSelection = False, vf_frames = []\<rparr>"

definition example_shown :: QImage where
  "example_shown = example_frame\<lparr>img_width := 640, img_height := 360,
                     img_painted := [DrawRect green (QRect_xywh 100 100 34 34)]\<rparr>"

text \<open>A drag over the middle of the feed.\<close>

definition example_selection :: QRectF where
  "example_selection = \<lparr>f_left = Finite (1 / 4), f_top = Finite (1 / 4),
                          f_width = Finite (1 / 2), f_height = Finite (1 / 2)\<rparr>"

text \<open>Camera 1 connected, and its edit regions button checked by the user.\<close>

definition example_editing :: MainWindow where
  "example_editing =
     on_motionDetectorRegionsToolButton_toggled cam1 True
       (on_connectToolButton_clicked cam1 (Inr example_stream) example_window)"

text \<open>The same window after a drag has added a region.\<close>

definition example_with_region :: MainWindow where
  "example_with_region =
     VideoFrameAreaSelection 1 example_selection (Inl []) (Inr example_stream) example_editing"

text \<open>Cameras 1 and 2 connected.\<close>

definition example_two_connected :: MainWindow where
  "example_two_connected =
     toggles [(cam1, Inr example_stream), (cam2, Inr example_stream)] example_window"

text \<open>
  The counter agrees with the map, and a running timer has a connection to poll.
\<close>

definition counter_inv :: "MainWindow \<Rightarrow> bool" where
  "counter_inv st =
     (m_numConnections st = int (connected_count st) \<and>
      (if m_updateFeedsTimer st then 0 < m_numConnections st else True))"

section \<open>Properties\<close>

subsection \<open>What each operation leaves alone\<close>

lemma report_fields [simp]:
  "m_prefs (report msg st) = m_prefs st"
  "m_camDb (report msg st) = m_camDb st"
  "camDbFile (report msg st) = camDbFile st"
  "m_updateFeedsTimer (report msg st) = m_updateFeedsTimer st"
  "m_numConnections (report msg st) = m_numConnections st"
  "m_streamProcessors (report msg st) = m_streamProcessors st"
  "m_camFeeds (report msg st) = m_camFeeds st"
  "m_camMotionRegions (report msg st) = m_camMotionRegions st"
  "m_motionAreaSetupEnabled (report msg st) = m_motionAreaSetupEnabled st"
  "m_videoForm (report msg st) = m_videoForm st"
  "m_videoFormId (report msg st) = m_videoFormId st"
  "ui_button (report msg st) = ui_button st"
  "ui_camFeedGroupBox (report msg st) = ui_camFeedGroupBox st"
  "ui_camWidget (report msg st) = ui_camWidget st"
  "messages (report msg st) = messages st @ [msg]"
  by (simp_all add: report_def)

lemma upd_button_fields [simp]:
  "m_prefs (upd_button b f st) = m_prefs st"
  "m_camDb (upd_button b f st) = m_camDb st"
  "camDbFile (upd_button b f st) = camDbFile st"
  "m_updateFeedsTimer (upd_button b f st) = m_updateFeedsTimer st"
  "m_numConnections (upd_button b f st) = m_numConnections st"
  "m_streamProcessors (upd_button b f st) = m_streamProcessors st"
  "m_camFeeds (upd_button b f st) = m_camFeeds st"
  "m_camMotionRegions (upd_button b f st) = m_camMotionRegions st"
  "m_motionAreaSetupEnabled (upd_button b f st) = m_motionAreaSetupEnabled st"
  "m_videoForm (upd_button b f st) = m_videoForm st"
  "m_videoFormId (upd_button b f st) = m_videoFormId st"
  "ui_button (upd_button b f st) = (ui_button st)(b := f (ui_button st b))"
  "ui_camFeedGroupBox (upd_button b f st) = ui_camFeedGroupBox st"
  "ui_camWidget (upd_button b f st) = ui_camWidget st"
  "messages (upd_button b f st) = messages st"
  by (simp_all add: upd_button_def)

lemma upd_groupBox_fields [simp]:
  "m_prefs (upd_groupBox k f st) = m_prefs st"
  "m_camDb (upd_groupBox k f st) = m_camDb st"
  "camDbFile (upd_groupBox k f st) = camDbFile st"
  "m_updateFeedsTimer (upd_groupBox k f st) = m_updateFeedsTimer st"
  "m_numConnections (upd_groupBox k f st) = m_numConnections st"
  "m_streamProcessors (upd_groupBox k f st) = m_streamProcessors st"
  "m_camFeeds (upd_groupBox k f st) = m_camFeeds st"
  "m_camMotionRegions (upd_groupBox k f st) = m_camMotionRegions st"
  "m_motionAreaSetupEnabled (upd_groupBox k f st) = m_motionAreaSetupEnabled st"
  "m_videoForm (upd_groupBox k f st) = m_videoForm st"
  "m_videoFormId (upd_groupBox k f st) = m_videoFormId st"
  "ui_button (upd_groupBox k f st) = ui_button st"
  "ui_camWidget (upd_groupBox k f st) = ui_camWidget st"
  "messages (upd_groupBox k f st) = messages st"
  by (simp_all add: upd_groupBox_def split: eCamId.splits)

lemmas button_ops = setEnabled_def setVisible_def setIcon_def setToolTip_def

lemma setChecked_blocked_fields [simp]:
  "m_prefs (setChecked_blocked b v st) = m_prefs st"
  "m_camDb (setChecked_blocked b v st) = m_camDb st"
  "camDbFile (setChecked_blocked b v st) = camDbFile st"
  "m_updateFeedsTimer (setChecked_blocked b v st) = m_updateFeedsTimer st"
  "m_numConnections (setChecked_blocked b v st) = m_numConnections st"
  "m_streamProcessors (setChecked_blocked b v st) = m_streamProcessors st"
  "m_camFeeds (setChecked_blocked b v st) = m_camFeeds st"
  "m_camMotionRegions (setChecked_blocked b v st) = m_camMotionRegions st"
  "m_motionAreaSetupEnabled (setChecked_blocked b v st) = m_motionAreaSetupEnabled st"
  "m_videoForm (setChecked_blocked b v st) = m_videoForm st"
  "m_videoFormId (setChecked_blocked b v st) = m_videoFormId st"
  "ui_camFeedGroupBox (setChecked_blocked b v st) = ui_camFeedGroupBox st"
  "ui_camWidget (setChecked_blocked b v st) = ui_camWidget st"
  "messages (setChecked_blocked b v st) = messages st"
  by (simp_all add: setChecked_blocked_def)

lemma EnableMotionRegionsSetup_fields [simp]:
  "m_prefs (EnableMotionRegionsSetup k e b1 b2 st) = m_prefs st"
  "m_camDb (EnableMotionRegionsSetup k e b1 b2 st) = m_camDb st"
  "camDbFile (EnableMotionRegionsSetup k e b1 b2 st) = camDbFile st"
  "m_updateFeedsTimer (EnableMotionRegionsSetup k e b1 b2 st) = m_updateFeedsTimer st"
  "m_numConnections (EnableMotionRegionsSetup k e b1 b2 st) = m_numConnections st"
  "m_streamProcessors (EnableMotionRegionsSetup k e b1 b2 st) = m_streamProcessors st"
  "m_videoForm (EnableMotionRegionsSetup k e b1 b2 st) = m_videoForm st"
  "m_videoFormId (EnableMotionRegionsSetup k e b1 b2 st) = m_videoFormId st"
  "ui_camFeedGroupBox (EnableMotionRegionsSetup k e b1 b2 st) = ui_camFeedGroupBox st"
  "ui_camWidget (EnableMotionRegionsSetup k e b1 b2 st) = ui_camWidget st"
  by (simp_all add: EnableMotionRegionsSetup_def button_ops Let_def split: option.splits)

lemma setChecked_fields [simp]:
  "m_prefs (setChecked b v st) = m_prefs st"
  "m_camDb (setChecked b v st) = m_camDb st"
  "camDbFile (setChecked b v st) = camDbFile st"
  "m_updateFeedsTimer (setChecked b v st) = m_updateFeedsTimer st"
  "m_numConnections (setChecked b v st) = m_numConnections st"
  "m_streamProcessors (setChecked b v st) = m_streamProcessors st"
  "m_videoForm (setChecked b v st) = m_videoForm st"
  "m_videoFormId (setChecked b v st) = m_videoFormId st"
  "ui_camFeedGroupBox (setChecked b v st) = ui_camFeedGroupBox st"
  "ui_camWidget (setChecked b v st) = ui_camWidget st"
  by (simp_all add: setChecked_def on_motionDetectorRegionsToolButton_toggled_def Let_def
        split: button.splits)


lemma ConnectionHandler_disconnect_core:
  "m_streamProcessors (ConnectionHandler_disconnect camera b1 b2 b3 b4 b5 b6 b7 st) =
     (m_streamProcessors st)(camId camera := None)"
  "m_numConnections (ConnectionHandler_disconnect camera b1 b2 b3 b4 b5 b6 b7 st) =
     m_numConnections st - 1"
  "m_updateFeedsTimer (ConnectionHandler_disconnect camera b1 b2 b3 b4 b5 b6 b7 st) =
     (1 < m_numConnections st \<or> m_updateFeedsTimer st)"
  "m_camDb (ConnectionHandler_disconnect camera b1 b2 b3 b4 b5 b6 b7 st) = m_camDb st"
  "camDbFile (ConnectionHandler_disconnect camera b1 b2 b3 b4 b5 b6 b7 st) = camDbFile st"
  "m_prefs (ConnectionHandler_disconnect camera b1 b2 b3 b4 b5 b6 b7 st) = m_prefs st"
  "ui_camWidget (ConnectionHandler_disconnect camera b1 b2 b3 b4 b5 b6 b7 st) = ui_camWidget st"
  by (simp_all add: ConnectionHandler_disconnect_def Let_def button_ops close_videoForm_def)

lemma ConnectionHandler_disconnect_videoForm:
  "vform_visible (m_videoForm (ConnectionHandler_disconnect camera b1 b2 b3 b4 b5 b6 b7 st)) =
     (vform_visible (m_videoForm st) \<and> m_videoFormId st \<noteq> camId camera)"
  "m_videoFormId (ConnectionHandler_disconnect camera b1 b2 b3 b4 b5 b6 b7 st) =
     (if vform_visible (m_videoForm st) \<and> m_videoFormId st = camId camera then noCam
      else m_videoFormId st)"
  by (auto simp add: ConnectionHandler_disconnect_def Let_def button_ops close_videoForm_def)

lemma ConnectionHandler_connect_core:
  "m_streamProcessors (ConnectionHandler_connect camera b1 b2 b3 b4 b5 b6 b7 (Inl what) st) =
     m_streamProcessors st"
  "m_numConnections (ConnectionHandler_connect camera b1 b2 b3 b4 b5 b6 b7 (Inl what) st) =
     m_numConnections st"
  "m_updateFeedsTimer (ConnectionHandler_connect camera b1 b2 b3 b4 b5 b6 b7 (Inl what) st) =
     m_updateFeedsTimer st"
  "m_numConnections (ConnectionHandler_connect camera b1 b2 b3 b4 b5 b6 b7 (Inr s) st) =
     m_numConnections st + 1"
  "m_updateFeedsTimer (ConnectionHandler_connect camera b1 b2 b3 b4 b5 b6 b7 (Inr s) st)"
  "m_streamProcessors (ConnectionHandler_connect camera b1 b2 b3 b4 b5 b6 b7 (Inr s) st) (camId camera) \<noteq> None"
  "k \<noteq> camId camera \<Longrightarrow> m_streamProcessors (ConnectionHandler_connect camera b1 b2 b3 b4 b5 b6 b7 (Inr s) st) k = m_streamProcessors st k"
  by (simp_all add: ConnectionHandler_connect_def Let_def button_ops)


lemma ConnectionHandler_core:
  "m_streamProcessors (ConnectionHandler camera b1 b2 b3 b4 b5 b6 b7 a st) =
     (if m_streamProcessors st (camId camera) \<noteq> None
      then (m_streamProcessors st)(camId camera := None)
      else m_streamProcessors (ConnectionHandler_connect camera b1 b2 b3 b4 b5 b6 b7 a st))"
  "m_numConnections (ConnectionHandler camera b1 b2 b3 b4 b5 b6 b7 a st) =
     (if m_streamProcessors st (camId camera) \<noteq> None then m_numConnections st - 1
      else case a of Inl what \<Rightarrow> m_numConnections st | Inr s \<Rightarrow> m_numConnections st + 1)"
  "m_updateFeedsTimer (ConnectionHandler camera b1 b2 b3 b4 b5 b6 b7 a st) =
     (if m_streamProcessors st (camId camera) \<noteq> None then 1 < m_numConnections st
      else case a of Inl what \<Rightarrow> False | Inr s \<Rightarrow> True)"
  by (auto simp add: ConnectionHandler_def ConnectionHandler_disconnect_core
        ConnectionHandler_connect_core ConnectionHandler_connect_def Let_def button_ops split: sum.splits)

lemma ConnectionHandler_connect_frame [simp]:
  "m_camDb (ConnectionHandler_connect camera b1 b2 b3 b4 b5 b6 b7 a st) = m_camDb st"
  "camDbFile (ConnectionHandler_connect camera b1 b2 b3 b4 b5 b6 b7 a st) = camDbFile st"
  "m_prefs (ConnectionHandler_connect camera b1 b2 b3 b4 b5 b6 b7 a st) = m_prefs st"
  "ui_camWidget (ConnectionHandler_connect camera b1 b2 b3 b4 b5 b6 b7 a st) = ui_camWidget st"
  "m_videoForm (ConnectionHandler_connect camera b1 b2 b3 b4 b5 b6 b7 a st) = m_videoForm st"
  "m_videoFormId (ConnectionHandler_connect camera b1 b2 b3 b4 b5 b6 b7 a st) = m_videoFormId st"
  by (simp_all add: ConnectionHandler_connect_def Let_def button_ops split: sum.splits)

lemma ConnectionHandler_frame [simp]:
  "m_camDb (ConnectionHandler camera b1 b2 b3 b4 b5 b6 b7 a st) = m_camDb st"
  "camDbFile (ConnectionHandler camera b1 b2 b3 b4 b5 b6 b7 a st) = camDbFile st"
  "m_prefs (ConnectionHandler camera b1 b2 b3 b4 b5 b6 b7 a st) = m_prefs st"
  "ui_camWidget (ConnectionHandler camera b1 b2 b3 b4 b5 b6 b7 a st) = ui_camWidget st"
  by (simp_all add: ConnectionHandler_def ConnectionHandler_disconnect_core Let_def)

lemma on_connectToolButton_clicked_frame [simp]:
  "m_camDb (on_connectToolButton_clicked k a st) = m_camDb st"
  "camDbFile (on_connectToolButton_clicked k a st) = camDbFile st"
  "m_prefs (on_connectToolButton_clicked k a st) = m_prefs st"
  "ui_camWidget (on_connectToolButton_clicked k a st) = ui_camWidget st"
  by (simp_all add: on_connectToolButton_clicked_def split: option.splits)

lemma count_erase:
  "m_streamProcessors st k \<noteq> None \<Longrightarrow> m_streamProcessors st' = (m_streamProcessors st)(k := None) \<Longrightarrow>
     int (connected_count st') = int (connected_count st) - 1"
  by (cases k) (auto simp add: all_camIds_def connected_count_def)

lemma count_insert:
  "m_streamProcessors st k = None \<Longrightarrow> m_streamProcessors st' k \<noteq> None \<Longrightarrow>
   (\<And>j. j \<noteq> k \<Longrightarrow> m_streamProcessors st' j = m_streamProcessors st j) \<Longrightarrow>
     int (connected_count st') = int (connected_count st) + 1"
  by (cases k) (simp_all add: all_camIds_def connected_count_def)

lemma count_same:
  "m_streamProcessors st' = m_streamProcessors st \<Longrightarrow> connected_count st' = connected_count st"
  by (simp add: connected_count_def)

lemma toggle_counter_inv:
  assumes inv: "counter_inv st"
  shows "counter_inv (on_connectToolButton_clicked k a st)"
proof (cases "FindCamera k (m_camDb st)")
  case None
  then have eq: "on_connectToolButton_clicked k a st = report (FailedToFindCamera k) st"
    by (simp add: on_connectToolButton_clicked_def)
  have "connected_count (report (FailedToFindCamera k) st) = connected_count st"
    by (rule count_same) simp
  with inv show ?thesis
    unfolding eq counter_inv_def by (auto split: if_splits)
next
  case (Some camera)
  define st' where "st' = on_connectToolButton_clicked k a st"
  have eq: "st' = ConnectionHandler camera (camConnectToolButton k) (camMotionRegionsToolButton k)
            (camRemoveMotionRegionsToolButton k) (camRecordToolButton k) (camImageToolButton k)
            (camExpandToolButton k) (camStorageToolButton k) a st"
    using Some by (simp add: st'_def on_connectToolButton_clicked_def)
  have n0: "0 \<le> m_numConnections st"
    using inv by (simp add: counter_inv_def)
  show ?thesis
  proof (cases "m_streamProcessors st (camId camera) = None")
    case False
    have "int (connected_count st') = int (connected_count st) - 1"
      by (rule count_erase [OF False]) (simp add: eq ConnectionHandler_core False)
    moreover have "m_numConnections st' = m_numConnections st - 1"
      and "m_updateFeedsTimer st' = (1 < m_numConnections st)"
      using False by (simp_all add: eq ConnectionHandler_core)
    ultimately show ?thesis
      using inv unfolding st'_def [symmetric] counter_inv_def by (auto split: if_splits)
  next
    case True
    show ?thesis
    proof (cases a)
      case (Inl what)
      have "connected_count st' = connected_count st"
        by (rule count_same) (simp add: eq ConnectionHandler_core True Inl ConnectionHandler_connect_core)
      moreover have "m_numConnections st' = m_numConnections st"
        and "m_updateFeedsTimer st' = False"
        using True Inl by (simp_all add: eq ConnectionHandler_core)
      ultimately show ?thesis
        using inv unfolding st'_def [symmetric] counter_inv_def by (auto split: if_splits)
    next
      case (Inr s)
      have "int (connected_count st') = int (connected_count st) + 1"
        by (rule count_insert [OF True])
           (simp_all add: eq ConnectionHandler_core True Inr ConnectionHandler_connect_core)
      moreover have "m_numConnections st' = m_numConnections st + 1"
        and "m_updateFeedsTimer st' = True"
        using True Inr by (simp_all add: eq ConnectionHandler_core)
      ultimately show ?thesis
        using inv n0 unfolding st'_def [symmetric] counter_inv_def by (auto split: if_splits)
    qed
  qed
qed

lemma toggles_counter_inv:
  "counter_inv st \<Longrightarrow> counter_inv (toggles es st)"
  by (induction es arbitrary: st) (auto simp add: toggle_counter_inv)

lemma EnableMotionRegionsSetup_buttons [simp]:
  "isEnabled (ui_button (EnableMotionRegionsSetup k e b1 b2 st) b) = isEnabled (ui_button st b)"
  "icon (ui_button (EnableMotionRegionsSetup k e b1 b2 st) b) = icon (ui_button st b)"
  "toolTip (ui_button (EnableMotionRegionsSetup k e b1 b2 st) b) = toolTip (ui_button st b)"
  by (simp_all add: EnableMotionRegionsSetup_def button_ops Let_def setChecked_blocked_def
        upd_button_def report_def split: option.splits)

lemma setChecked_buttons [simp]:
  "isEnabled (ui_button (setChecked b' v st) b) = isEnabled (ui_button st b)"
  "icon (ui_button (setChecked b' v st) b) = icon (ui_button st b)"
  "toolTip (ui_button (setChecked b' v st) b) = toolTip (ui_button st b)"
  by (simp_all add: setChecked_def on_motionDetectorRegionsToolButton_toggled_def Let_def
        split: button.splits)

lemma disconnect_affordances:
  fixes k :: eCamId
  defines "st' \<equiv> \<lambda>camera st. ConnectionHandler_disconnect camera (camConnectToolButton k)
      (camMotionRegionsToolButton k) (camRemoveMotionRegionsToolButton k) (camRecordToolButton k)
      (camImageToolButton k) (camExpandToolButton k) (camStorageToolButton k) st"
  shows "isEnabled (ui_button (st' camera st) (camRecordToolButton k)) = False"
    and "isEnabled (ui_button (st' camera st) (camImageToolButton k)) = False"
    and "isEnabled (ui_button (st' camera st) (camExpandToolButton k)) = False"
    and "isEnabled (ui_button (st' camera st) (camStorageToolButton k)) = False"
    and "isEnabled (ui_button (st' camera st) (camMotionRegionsToolButton k)) = False"
    and "icon (ui_button (st' camera st) (camConnectToolButton k)) = WallCam_Connect_48"
    and "icon (ui_button (st' camera st) (camRecordToolButton k)) = Record_48"
    and "toolTip (ui_button (st' camera st) (camConnectToolButton k)) = ''Connect to camera stream.''"
  by (simp_all add: st'_def ConnectionHandler_disconnect_def Let_def button_ops)

lemma example_window_fields:
  "m_camDb example_window = example_db"
  "camDbFile example_window = example_db"
  "m_prefs example_window = example_prefs"
  "m_numConnections example_window = 0"
  "m_updateFeedsTimer example_window = False"
  "m_streamProcessors example_window = Map.empty"
  "m_camFeeds example_window = Map.empty"
  "m_camMotionRegions example_window = Map.empty"
  "m_motionAreaSetupEnabled example_window = Map.empty"
  "m_videoForm example_window = \<lparr>vform_visible = False, vform_title = [], vform_frames = []\<rparr>"
  "m_videoFormId example_window = noCam"
  "ui_camWidget example_window = (\<lambda>k. (640, 360))"
  by (simp_all add: example_window_def IpFreelyMainWindow_def button_ops)

lemma example_find:
  "FindCamera cam1 example_db = Some (example_camera cam1)"
  "FindCamera cam2 example_db = Some (example_camera cam2)"
  "camId (example_camera k) = k"
  by (simp_all add: FindCamera_def example_db_def example_camera_def)

subsection \<open>The connection controller\<close>

text \<open>
  Along every run of connect toggles from a window in which the counter agrees with the
  map, the counter \<open>m_numConnections\<close> is the number of entries of
  \<open>m_streamProcessors\<close>, and the timer runs only while that number is positive.
\<close>

theorem counter_counts_stream_processors:
  assumes "m_numConnections st = int (connected_count st)"
      and "m_updateFeedsTimer st \<longrightarrow> 0 < m_numConnections st"
  shows "m_numConnections (toggles es st) = int (connected_count (toggles es st))
       \<and> (if m_updateFeedsTimer (toggles es st) then 0 < connected_count (toggles es st) else True)"
proof -
  from assms have "counter_inv st"
    by (simp add: counter_inv_def)
  then have "counter_inv (toggles es st)"
    by (rule toggles_counter_inv)
  then show ?thesis
    by (auto simp add: counter_inv_def split: if_splits)
qed

theorem counter_counts_stream_processors_witness:
  "m_numConnections example_window = int (connected_count example_window)
   \<and> m_updateFeedsTimer example_window = False
   \<and> m_numConnections (toggles [(cam1, Inr example_stream), (cam1, Inl [])] example_window) =
       int (connected_count (toggles [(cam1, Inr example_stream), (cam1, Inl [])] example_window))
   \<and> (if m_updateFeedsTimer (toggles [(cam1, Inr example_stream), (cam1, Inl [])] example_window)
       then 0 < connected_count (toggles [(cam1, Inr example_stream), (cam1, Inl [])] example_window)
       else True)"
proof -
  have h1: "m_numConnections example_window = int (connected_count example_window)"
    by (simp add: example_window_fields connected_count_def all_camIds_def)
  have h2: "m_updateFeedsTimer example_window = False"
    by (simp add: example_window_fields)
  from h2 have h3: "m_updateFeedsTimer example_window \<longrightarrow> 0 < m_numConnections example_window"
    by simp
  from counter_counts_stream_processors
         [OF h1 h3, of "[(cam1, Inr example_stream), (cam1, Inl [])]"] h1 h2
  show ?thesis
    by (elim conjE) (intro conjI; assumption)
qed

text \<open>
  C1, at the run "connect camera 1, then try to connect camera 2 and fail": the counter
  is 1 and so is the number of stream processors, but the timer is stopped. The handler
  stops the timer on entry (line 1022); the catch block returns (line 1150) before the
  restart of line 1201, and no branch restarts it for the camera still connected.
\<close>

theorem failed_connect_leaves_timer_stopped:
  "m_numConnections
     (toggles [(cam1, Inr example_stream), (cam2, Inl ''no stream'')] example_window) = 1
   \<and> connected_count
     (toggles [(cam1, Inr example_stream), (cam2, Inl ''no stream'')] example_window) = 1
   \<and> m_updateFeedsTimer
     (toggles [(cam1, Inr example_stream), (cam2, Inl ''no stream'')] example_window) = False"
  by (simp add: on_connectToolButton_clicked_def example_window_fields example_find
      ConnectionHandler_core ConnectionHandler_connect_core connected_count_def all_camIds_def
      ConnectionHandler_connect_def Let_def button_ops)

text \<open>
  A connect toggle on a disconnected camera whose construction throws changes the
  messages and the timer, and nothing else: the window afterwards is the window before
  with the timer stopped and the two reports of the catch block.
\<close>

theorem failed_connect_effect:
  assumes "m_streamProcessors st (camId camera) = None"
  shows "ConnectionHandler camera b1 b2 b3 b4 b5 b6 b7 (Inl what) st =
           report (CriticalBox ''Stream Error'' what)
             (report (StreamError (camName (camId camera)) what)
                (st\<lparr>m_updateFeedsTimer := False\<rparr>))"
  using assms by (cases "m_updateFeedsTimer st")
    (simp_all add: ConnectionHandler_def ConnectionHandler_connect_def Let_def report_def)

theorem failed_connect_effect_witness:
  "m_streamProcessors example_window (camId (example_camera cam2)) = None
   \<and> ConnectionHandler (example_camera cam2) (camConnectToolButton cam2)
        (camMotionRegionsToolButton cam2) (camRemoveMotionRegionsToolButton cam2)
        (camRecordToolButton cam2) (camImageToolButton cam2) (camExpandToolButton cam2)
        (camStorageToolButton cam2) (Inl ''no stream'') example_window =
      report (CriticalBox ''Stream Error'' ''no stream'')
        (report (StreamError (camName (camId (example_camera cam2))) ''no stream'')
           (example_window\<lparr>m_updateFeedsTimer := False\<rparr>))"
proof -
  have h: "m_streamProcessors example_window (camId (example_camera cam2)) = None"
    by (simp add: example_window_fields)
  show ?thesis
    using failed_connect_effect [OF h] h by simp
qed

text \<open>
  C2, at "camera 1 connected and polled, then the connect of camera 2 fails": camera 2
  stays disconnected and the stream processor of camera 1 is untouched, but the shared
  timer, which ran before the toggle, is stopped after it, so camera 1 is no longer
  polled (the same defect as in C1).
\<close>

theorem failed_connect_stops_polling_of_others:
  "m_updateFeedsTimer (on_connectToolButton_clicked cam1 (Inr example_stream) example_window) = True
   \<and> m_updateFeedsTimer
       (on_connectToolButton_clicked cam2 (Inl ''no stream'')
          (on_connectToolButton_clicked cam1 (Inr example_stream) example_window)) = False
   \<and> m_streamProcessors
       (on_connectToolButton_clicked cam2 (Inl ''no stream'')
          (on_connectToolButton_clicked cam1 (Inr example_stream) example_window)) cam2 = None
   \<and> m_streamProcessors
       (on_connectToolButton_clicked cam2 (Inl ''no stream'')
          (on_connectToolButton_clicked cam1 (Inr example_stream) example_window)) cam1 =
     m_streamProcessors (on_connectToolButton_clicked cam1 (Inr example_stream) example_window) cam1
   \<and> m_streamProcessors (on_connectToolButton_clicked cam1 (Inr example_stream) example_window) cam1
       \<noteq> None"
  by (simp add: on_connectToolButton_clicked_def example_window_fields example_find
      ConnectionHandler_core ConnectionHandler_connect_core
      ConnectionHandler_connect_def Let_def button_ops)

text \<open>
  C5: on a disconnected slot whose camera is configured, a connect toggle that succeeds
  followed by a second toggle (which disconnects, whatever a construction would meet)
  leaves the slot disconnected with the record, snapshot, expand, storage and edit
  regions buttons disabled and the connect icon and tool tip restored. No toggle
  changes the camera database.
\<close>

theorem toggle_twice_restores_affordances:
  assumes "FindCamera k (m_camDb st) = Some camera"
      and "m_streamProcessors st (camId camera) = None"
  shows "let st' = on_connectToolButton_clicked k attempt
                     (on_connectToolButton_clicked k (Inr stream) st)
         in m_camDb st' = m_camDb st
          \<and> m_streamProcessors st' (camId camera) = None
          \<and> isEnabled (ui_button st' (camRecordToolButton k)) = False
          \<and> isEnabled (ui_button st' (camImageToolButton k)) = False
          \<and> isEnabled (ui_button st' (camExpandToolButton k)) = False
          \<and> isEnabled (ui_button st' (camStorageToolButton k)) = False
          \<and> isEnabled (ui_button st' (camMotionRegionsToolButton k)) = False
          \<and> icon (ui_button st' (camConnectToolButton k)) = WallCam_Connect_48
          \<and> toolTip (ui_button st' (camConnectToolButton k)) = ''Connect to camera stream.''"
proof -
  define st1 where "st1 = on_connectToolButton_clicked k (Inr stream) st"
  have c1: "m_streamProcessors st1 (camId camera) \<noteq> None"
    using assms
    by (simp add: st1_def on_connectToolButton_clicked_def ConnectionHandler_core
          ConnectionHandler_connect_core)
  have db1: "FindCamera k (m_camDb st1) = Some camera"
    using assms by (simp add: st1_def)
  have eq: "on_connectToolButton_clicked k attempt st1 =
        ConnectionHandler_disconnect camera (camConnectToolButton k)
      (camMotionRegionsToolButton k) (camRemoveMotionRegionsToolButton k) (camRecordToolButton k)
      (camImageToolButton k) (camExpandToolButton k) (camStorageToolButton k)
      (if m_updateFeedsTimer st1 then st1\<lparr>m_updateFeedsTimer := False\<rparr> else st1)"
    using c1 db1 by (auto simp add: on_connectToolButton_clicked_def ConnectionHandler_def Let_def)
  have db: "m_camDb st1 = m_camDb st"
    by (simp add: st1_def)
  show ?thesis
    unfolding Let_def st1_def [symmetric] eq
    by (simp add: disconnect_affordances ConnectionHandler_disconnect_core db)
qed

theorem toggle_twice_restores_affordances_witness:
  "FindCamera cam1 (m_camDb example_window) = Some (example_camera cam1)
   \<and> m_streamProcessors example_window (camId (example_camera cam1)) = None
   \<and> (let st' = on_connectToolButton_clicked cam1 (Inl [])
                   (on_connectToolButton_clicked cam1 (Inr example_stream) example_window)
      in m_camDb st' = m_camDb example_window
       \<and> m_streamProcessors st' (camId (example_camera cam1)) = None
       \<and> isEnabled (ui_button st' (camRecordToolButton cam1)) = False
       \<and> isEnabled (ui_button st' (camImageToolButton cam1)) = False
       \<and> isEnabled (ui_button st' (camExpandToolButton cam1)) = False
       \<and> isEnabled (ui_button st' (camStorageToolButton cam1)) = False
       \<and> isEnabled (ui_button st' (camMotionRegionsToolButton cam1)) = False
       \<and> icon (ui_button st' (camConnectToolButton cam1)) = WallCam_Connect_48
       \<and> toolTip (ui_button st' (camConnectToolButton cam1)) = ''Connect to camera stream.'')"
proof -
  have h1: "FindCamera cam1 (m_camDb example_window) = Some (example_camera cam1)"
    by (simp add: example_window_fields example_find)
  have h2: "m_streamProcessors example_window (camId (example_camera cam1)) = None"
    by (simp add: example_window_fields)
  show ?thesis
    using toggle_twice_restores_affordances [OF h1 h2, of "Inl []" example_stream] h1 h2
    by simp
qed

subsection \<open>The motion region editor\<close>

lemma setChecked_absent_feed:
  assumes "m_camFeeds st k = None"
  shows "m_camFeeds (setChecked (camMotionRegionsToolButton k) v st) = m_camFeeds st"
    and "m_camMotionRegions (setChecked (camMotionRegionsToolButton k) v st) = m_camMotionRegions st"
    and "m_motionAreaSetupEnabled (setChecked (camMotionRegionsToolButton k) v st) =
           m_motionAreaSetupEnabled st"
  using assms
  by (simp_all add: setChecked_def on_motionDetectorRegionsToolButton_toggled_def
        EnableMotionRegionsSetup_def Let_def button_ops)

lemma disconnect_maps:
  assumes "camId camera = k"
  defines "st' \<equiv> ConnectionHandler_disconnect camera (camConnectToolButton k)
      (camMotionRegionsToolButton k) (camRemoveMotionRegionsToolButton k) (camRecordToolButton k)
      (camImageToolButton k) (camExpandToolButton k) (camStorageToolButton k)"
  shows "m_camFeeds (st' st) = (m_camFeeds st)(k := None)"
    and "m_camMotionRegions (st' st) = (m_camMotionRegions st)(k := None)"
    and "m_motionAreaSetupEnabled (st' st) = (m_motionAreaSetupEnabled st)(k := None)"
  using assms(1)
  by (simp_all add: st'_def ConnectionHandler_disconnect_def Let_def button_ops close_videoForm_def
        setChecked_absent_feed)

lemma connect_maps:
  defines "st' \<equiv> \<lambda>camera k. ConnectionHandler_connect camera (camConnectToolButton k)
      (camMotionRegionsToolButton k) (camRemoveMotionRegionsToolButton k) (camRecordToolButton k)
      (camImageToolButton k) (camExpandToolButton k) (camStorageToolButton k)"
  shows "m_camFeeds (st' camera k (Inl what) st) = m_camFeeds st"
    and "m_camMotionRegions (st' camera k a st) = m_camMotionRegions st"
    and "m_motionAreaSetupEnabled (st' camera k a st) = m_motionAreaSetupEnabled st"
    and "m_camFeeds (st' camera k (Inr s) st) (camId camera) \<noteq> None"
    and "map_option sp_camera (m_streamProcessors (st' camera k (Inr s) st) (camId camera)) = Some camera"
    and "map_option sp_stream (m_streamProcessors (st' camera k (Inr s) st) (camId camera)) = Some s"
  by (simp_all add: st'_def ConnectionHandler_connect_def Let_def button_ops split: sum.splits)

lemma toggle_maps:
  assumes "FindCamera k (m_camDb st) = Some camera" and "camId camera = k"
  shows "m_camMotionRegions (on_connectToolButton_clicked k a st) =
           (if m_streamProcessors st k \<noteq> None then (m_camMotionRegions st)(k := None)
            else m_camMotionRegions st)"
    and "m_motionAreaSetupEnabled (on_connectToolButton_clicked k a st) =
           (if m_streamProcessors st k \<noteq> None then (m_motionAreaSetupEnabled st)(k := None)
            else m_motionAreaSetupEnabled st)"
    and "m_streamProcessors st k \<noteq> None \<Longrightarrow>
           m_camFeeds (on_connectToolButton_clicked k a st) k = None"
    and "m_streamProcessors st k \<noteq> None \<Longrightarrow>
           m_streamProcessors (on_connectToolButton_clicked k a st) k = None"
    and "m_streamProcessors st k = None \<Longrightarrow>
           m_camFeeds (on_connectToolButton_clicked k (Inl what) st) k = m_camFeeds st k"
    and "m_streamProcessors st k = None \<Longrightarrow>
           m_streamProcessors (on_connectToolButton_clicked k (Inl what) st) k = None"
    and "m_streamProcessors st k = None \<Longrightarrow>
           m_camFeeds (on_connectToolButton_clicked k (Inr s) st) k \<noteq> None"
    and "m_streamProcessors st k = None \<Longrightarrow>
           map_option sp_camera (m_streamProcessors (on_connectToolButton_clicked k (Inr s) st) k) = Some camera"
    and "m_streamProcessors st k = None \<Longrightarrow>
           map_option sp_stream (m_streamProcessors (on_connectToolButton_clicked k (Inr s) st) k) = Some s"
  using assms connect_maps(4-6) [of camera k s]
  by (auto simp add: on_connectToolButton_clicked_def ConnectionHandler_def Let_def disconnect_maps
        connect_maps ConnectionHandler_disconnect_core ConnectionHandler_connect_core)

lemma EnableMotionRegionsSetup_True_maps:
  "m_camFeeds st k = None \<Longrightarrow>
     m_camMotionRegions (EnableMotionRegionsSetup k True b1 b2 st) = m_camMotionRegions st"
  "m_camFeeds st k = None \<Longrightarrow>
     m_motionAreaSetupEnabled (EnableMotionRegionsSetup k True b1 b2 st) = m_motionAreaSetupEnabled st"
  "m_camFeeds st k \<noteq> None \<Longrightarrow> FindCamera k (m_camDb st) = Some camera \<Longrightarrow>
     m_camMotionRegions (EnableMotionRegionsSetup k True b1 b2 st) =
       (m_camMotionRegions st)(k \<mapsto> motionRegions camera)"
  "m_camFeeds st k \<noteq> None \<Longrightarrow> FindCamera k (m_camDb st) = Some camera \<Longrightarrow>
     m_motionAreaSetupEnabled (EnableMotionRegionsSetup k True b1 b2 st) =
       (m_motionAreaSetupEnabled st)(k \<mapsto> True)"
  by (auto simp add: EnableMotionRegionsSetup_def Let_def button_ops split: option.splits)


lemma ReconnectCamera_frame [simp]:
  "m_camDb (ReconnectCamera k a1 a2 st) = m_camDb st"
  "camDbFile (ReconnectCamera k a1 a2 st) = camDbFile st"
  by (simp_all add: ReconnectCamera_def split: eCamId.splits)

lemma UpdateCamera_and_Save_fields [simp]:
  "m_camDb (UpdateCamera_and_Save camera st) = (m_camDb st)(camId camera \<mapsto> camera)"
  "camDbFile (UpdateCamera_and_Save camera st) = (m_camDb st)(camId camera \<mapsto> camera)"
  "m_streamProcessors (UpdateCamera_and_Save camera st) = m_streamProcessors st"
  "m_camFeeds (UpdateCamera_and_Save camera st) = m_camFeeds st"
  "m_camMotionRegions (UpdateCamera_and_Save camera st) = m_camMotionRegions st"
  "m_motionAreaSetupEnabled (UpdateCamera_and_Save camera st) = m_motionAreaSetupEnabled st"
  by (simp_all add: UpdateCamera_and_Save_def UpdateCamera_def Let_def)

text \<open>The working set after the reconnect cycle, by what the two toggles meet.\<close>

lemma ReconnectCamera_working_set:
  assumes db: "FindCamera k (m_camDb st) = Some camera" and id: "camId camera = k"
  shows "working_set (ReconnectCamera k a1 a2 st) k = motionRegions camera
       \<or> working_set (ReconnectCamera k a1 a2 st) k = []
       \<or> working_set (ReconnectCamera k a1 a2 st) k = working_set st k"
proof (cases "k = noCam")
  case True
  then show ?thesis by (simp add: ReconnectCamera_def)
next
  case False
  define st1 where "st1 = on_connectToolButton_clicked k a1 st"
  define st2 where "st2 = on_connectToolButton_clicked k a2 st1"
  have eq: "ReconnectCamera k a1 a2 st =
      EnableMotionRegionsSetup k True (camRemoveMotionRegionsToolButton k)
        (camMotionRegionsToolButton k) st2"
    using False by (cases k) (simp_all add: ReconnectCamera_def st1_def st2_def)
  have db1: "FindCamera k (m_camDb st1) = Some camera" using db by (simp add: st1_def)
  have db2: "FindCamera k (m_camDb st2) = Some camera" using db1 by (simp add: st2_def)
  have r1: "m_camMotionRegions st1 k = None \<or> m_camMotionRegions st1 k = m_camMotionRegions st k"
    by (simp add: st1_def toggle_maps(1) [OF db id])
  have r2: "m_camMotionRegions st2 k = None \<or> m_camMotionRegions st2 k = m_camMotionRegions st1 k"
    by (simp add: st2_def toggle_maps(1) [OF db1 id])
  show ?thesis
  proof (cases "m_camFeeds st2 k = None")
    case True
    then have "m_camMotionRegions (ReconnectCamera k a1 a2 st) = m_camMotionRegions st2"
      by (simp add: eq EnableMotionRegionsSetup_True_maps)
    with r1 r2 show ?thesis
      by (auto simp add: working_set_def map_index_def)
  next
    case False
    then have "m_camMotionRegions (ReconnectCamera k a1 a2 st) =
        (m_camMotionRegions st2)(k \<mapsto> motionRegions camera)"
      using db2 by (simp add: eq EnableMotionRegionsSetup_True_maps)
    then show ?thesis
      by (simp add: working_set_def map_index_def)
  qed
qed

lemma VideoFrameAreaSelection_effect:
  fixes st :: MainWindow and sel :: QRectF and n :: int and k :: eCamId
  assumes db: "FindCamera k (m_camDb st) = Some camera" and id: "camId camera = k"
      and n: "cameraId k = n" and k: "k \<noteq> noCam"
      and connected: "m_streamProcessors st k \<noteq> None"
  defines "st' \<equiv> \<lambda>a1 a2. VideoFrameAreaSelection n sel a1 a2 st"
      and "regions \<equiv> working_set st k @ [region_of sel]"
  shows "FindCamera k (m_camDb (st' a1 a2)) = Some (camera\<lparr>motionRegions := regions\<rparr>)"
    and "camDbFile (st' a1 a2) = m_camDb (st' a1 a2)"
    and "working_set (st' a1 (Inr s)) k = regions"
    and "map_option sp_camera (m_streamProcessors (st' a1 (Inr s)) k) =
           Some (camera\<lparr>motionRegions := regions\<rparr>)"
    and "map_option sp_stream (m_streamProcessors (st' a1 (Inr s)) k) = Some s"
    and "m_motionAreaSetupEnabled (st' a1 (Inr s)) k = Some True"
    and "m_streamProcessors (st' a1 (Inl what)) k = None"
    and "m_camMotionRegions (st' a1 (Inl what)) k = None"
proof -
  define camera' where "camera' = camera\<lparr>motionRegions := regions\<rparr>"
  define st1 where "st1 = UpdateCamera_and_Save camera'
      (st\<lparr>m_camMotionRegions := (m_camMotionRegions st)(k \<mapsto> regions)\<rparr>)"
  define st2 where "st2 = (\<lambda>a1. on_connectToolButton_clicked k a1 st1)"
  define st3 where "st3 = (\<lambda>a1 a2. on_connectToolButton_clicked k a2 (st2 a1))"
  have sel: "(if n = 1 then Some cam1 else if n = 2 then Some cam2
            else if n = 3 then Some cam3 else if n = 4 then Some cam4 else None) = Some k"
    using n k by (cases k) auto
  have eq: "st' a1 a2 = EnableMotionRegionsSetup k True (camRemoveMotionRegionsToolButton k)
        (camMotionRegionsToolButton k) (st3 a1 a2)" for a1 a2
    using db k
    by (cases k)
       (simp_all add: st'_def VideoFrameAreaSelection_def sel Let_def st1_def camera'_def
          regions_def working_set_def map_index_def ReconnectCamera_def st2_def st3_def)
  have id': "camId camera' = k" using id by (simp add: camera'_def)
  have db1: "FindCamera k (m_camDb st1) = Some camera'"
    using id' by (simp add: st1_def FindCamera_def)
  have db2: "FindCamera k (m_camDb (st2 a1)) = Some camera'" for a1
    using db1 by (simp add: st2_def)
  have db3: "FindCamera k (m_camDb (st3 a1 a2)) = Some camera'" for a1 a2
    using db2 by (simp add: st3_def)
  have c1: "m_streamProcessors st1 k \<noteq> None"
    using connected by (simp add: st1_def)
  have d2: "m_streamProcessors (st2 a1) k = None" "m_camFeeds (st2 a1) k = None"
    "m_camMotionRegions (st2 a1) k = None" for a1
    using c1 by (simp_all add: st2_def toggle_maps [OF db1 id'])
  show "FindCamera k (m_camDb (st' a1 a2)) = Some (camera\<lparr>motionRegions := regions\<rparr>)"
    using db3 [of a1 a2] by (simp add: eq camera'_def)
  show "camDbFile (st' a1 a2) = m_camDb (st' a1 a2)"
    by (simp add: eq st3_def st2_def st1_def)
  have f3: "m_camFeeds (st3 a1 (Inr s)) k \<noteq> None"
    and p3: "map_option sp_camera (m_streamProcessors (st3 a1 (Inr s)) k) = Some camera'"
    and s3: "map_option sp_stream (m_streamProcessors (st3 a1 (Inr s)) k) = Some s"
    using d2(1) [of a1] toggle_maps(7-9) [OF db2 [of a1] id', of s]
    by (simp_all add: st3_def)
  show "working_set (st' a1 (Inr s)) k = regions"
    using f3 db3 [of a1 "Inr s"]
    by (simp add: eq EnableMotionRegionsSetup_True_maps working_set_def map_index_def camera'_def)
  show "map_option sp_camera (m_streamProcessors (st' a1 (Inr s)) k) =
           Some (camera\<lparr>motionRegions := regions\<rparr>)"
    using p3 by (simp add: eq camera'_def)
  show "map_option sp_stream (m_streamProcessors (st' a1 (Inr s)) k) = Some s"
    using s3 by (simp add: eq)
  show "m_motionAreaSetupEnabled (st' a1 (Inr s)) k = Some True"
    using f3 db3 [of a1 "Inr s"]
    by (simp add: eq EnableMotionRegionsSetup_True_maps)
  have f3': "m_camFeeds (st3 a1 (Inl what)) k = None"
    and p3': "m_streamProcessors (st3 a1 (Inl what)) k = None"
    and r3': "m_camMotionRegions (st3 a1 (Inl what)) k = None"
    using d2 [of a1] toggle_maps(5,6) [OF db2 [of a1] id', of what]
      toggle_maps(1) [OF db2 [of a1] id', of "Inl what"]
    by (simp_all add: st3_def)
  show "m_streamProcessors (st' a1 (Inl what)) k = None"
    using p3' by (simp add: eq)
  show "m_camMotionRegions (st' a1 (Inl what)) k = None"
    using f3' r3' by (simp add: eq EnableMotionRegionsSetup_True_maps)
qed


lemma example_editing_fields:
  "m_camDb example_editing = example_db"
  "m_streamProcessors example_editing cam1 \<noteq> None"
  "m_motionAreaSetupEnabled example_editing cam1 = Some True"
  "m_camMotionRegions example_editing cam1 = Some []"
  "working_set example_editing cam1 = []"
proof -
  define st1 where "st1 = on_connectToolButton_clicked cam1 (Inr example_stream) example_window"
  have db: "FindCamera cam1 (m_camDb example_window) = Some (example_camera cam1)"
    by (simp add: example_window_fields example_find)
  have id: "camId (example_camera cam1) = cam1"
    by (simp add: example_find)
  have d: "m_streamProcessors example_window cam1 = None"
    by (simp add: example_window_fields)
  have db1: "FindCamera cam1 (m_camDb st1) = Some (example_camera cam1)"
    using db by (simp add: st1_def)
  have f1: "m_camFeeds st1 cam1 \<noteq> None"
    unfolding st1_def by (rule toggle_maps(7) [OF db id d])
  have p1: "m_streamProcessors st1 cam1 \<noteq> None"
    using toggle_maps(9) [OF db id d, of example_stream] by (auto simp add: st1_def)
  have r1: "m_camMotionRegions st1 = Map.empty"
    using d by (simp add: st1_def toggle_maps(1) [OF db id] example_window_fields)
  have eq: "example_editing = EnableMotionRegionsSetup cam1 True
      (camRemoveMotionRegionsToolButton cam1) (camRemoveMotionRegionsToolButton cam1) st1"
    by (simp add: example_editing_def on_motionDetectorRegionsToolButton_toggled_def st1_def)
  show "m_camDb example_editing = example_db"
    by (simp add: eq st1_def example_window_fields)
  show "m_streamProcessors example_editing cam1 \<noteq> None"
    using p1 by (simp add: eq)
  show "m_motionAreaSetupEnabled example_editing cam1 = Some True"
    by (simp add: eq EnableMotionRegionsSetup_True_maps(4) [OF f1 db1])
  show r: "m_camMotionRegions example_editing cam1 = Some []"
    by (simp add: eq EnableMotionRegionsSetup_True_maps(3) [OF f1 db1] example_camera_def)
  show "working_set example_editing cam1 = []"
    using r by (simp add: working_set_def map_index_def)
qed

lemma ConnectionHandler_disconnect_form:
  "m_videoForm (ConnectionHandler_disconnect camera b1 b2 b3 b4 b5 b6 b7 st) =
     (if vform_visible (m_videoForm st) \<and> m_videoFormId st = camId camera
      then (m_videoForm st)\<lparr>vform_visible := False\<rparr> else m_videoForm st)"
  "m_videoFormId (ConnectionHandler_disconnect camera b1 b2 b3 b4 b5 b6 b7 st) =
     (if vform_visible (m_videoForm st) \<and> m_videoFormId st = camId camera then noCam
      else m_videoFormId st)"
  by (auto simp add: ConnectionHandler_disconnect_def Let_def button_ops close_videoForm_def)

lemma example_two_connected_fields:
  "m_camDb example_two_connected = example_db"
  "m_streamProcessors example_two_connected cam1 \<noteq> None"
  "m_streamProcessors example_two_connected cam2 \<noteq> None"
  by (simp_all add: example_two_connected_def on_connectToolButton_clicked_def
        example_window_fields example_find ConnectionHandler_core ConnectionHandler_connect_core
        ConnectionHandler_connect_def Let_def button_ops)

lemma example_with_region_fields:
  "FindCamera cam1 (m_camDb example_with_region) =
     Some ((example_camera cam1)\<lparr>motionRegions := [region_of example_selection]\<rparr>)"
proof -
  have h1: "FindCamera cam1 (m_camDb example_editing) = Some (example_camera cam1)"
    by (simp add: example_editing_fields example_find)
  have h2: "camId (example_camera cam1) = cam1"
    by (simp add: example_find)
  have h3: "cameraId cam1 = 1" and h4: "cam1 \<noteq> noCam"
    by simp_all
  have h5: "m_streamProcessors example_editing cam1 \<noteq> None"
    by (rule example_editing_fields)
  show ?thesis
    using VideoFrameAreaSelection_effect(1) [OF h1 h2 h3 h4 h5, of example_selection "Inl []" "Inr example_stream"]
    by (simp add: example_with_region_def example_editing_fields)
qed

text \<open>
  C6: a completed drag on the feed of a connected camera whose configuration exists
  appends one region to the working set, writes the new set to the configuration and
  saves it, and disconnects the camera. When the construction of the new stream
  processor succeeds, the camera is connected again with the new configuration, edit
  mode is on and the working set is the saved set. When the construction throws, the
  camera stays disconnected and the working set is gone, while the saved set holds the
  new region.
\<close>

theorem area_selection_appends_region:
  fixes st :: MainWindow and sel :: QRectF and n :: int and k :: eCamId
  assumes "FindCamera k (m_camDb st) = Some camera" and "camId camera = k"
      and "cameraId k = n" and "k \<noteq> noCam"
      and "m_streamProcessors st k \<noteq> None"
  shows "regions_in (m_camDb (VideoFrameAreaSelection n sel a1 a2 st)) k =
           Some (working_set st k @ [region_of sel])
       \<and> camDbFile (VideoFrameAreaSelection n sel a1 a2 st) =
           m_camDb (VideoFrameAreaSelection n sel a1 a2 st)
       \<and> (case a2 of
            Inr s \<Rightarrow>
              working_set (VideoFrameAreaSelection n sel a1 a2 st) k =
                working_set st k @ [region_of sel]
              \<and> map_option sp_camera (m_streamProcessors (VideoFrameAreaSelection n sel a1 a2 st) k) =
                  Some (camera\<lparr>motionRegions := working_set st k @ [region_of sel]\<rparr>)
              \<and> map_option sp_stream (m_streamProcessors (VideoFrameAreaSelection n sel a1 a2 st) k) =
                  Some s
              \<and> m_motionAreaSetupEnabled (VideoFrameAreaSelection n sel a1 a2 st) k = Some True
          | Inl what \<Rightarrow>
              m_streamProcessors (VideoFrameAreaSelection n sel a1 a2 st) k = None
              \<and> m_camMotionRegions (VideoFrameAreaSelection n sel a1 a2 st) k = None)"
  using VideoFrameAreaSelection_effect [OF assms]
  by (cases a2) (simp_all add: regions_in_def FindCamera_def)

theorem area_selection_appends_region_witness:
  "FindCamera cam1 (m_camDb example_editing) = Some (example_camera cam1)
   \<and> m_streamProcessors example_editing cam1 \<noteq> None
   \<and> regions_in (camDbFile
        (VideoFrameAreaSelection 1 example_selection (Inl []) (Inr example_stream) example_editing))
        cam1 = Some [region_of example_selection]
   \<and> working_set
        (VideoFrameAreaSelection 1 example_selection (Inl []) (Inr example_stream) example_editing)
        cam1 = [region_of example_selection]
   \<and> m_motionAreaSetupEnabled
        (VideoFrameAreaSelection 1 example_selection (Inl []) (Inr example_stream) example_editing)
        cam1 = Some True"
proof -
  have h1: "FindCamera cam1 (m_camDb example_editing) = Some (example_camera cam1)"
    by (simp add: example_editing_fields example_find)
  have h2: "camId (example_camera cam1) = cam1"
    by (simp add: example_find)
  have h3: "cameraId cam1 = 1" and h4: "cam1 \<noteq> noCam"
    by simp_all
  have h5: "m_streamProcessors example_editing cam1 \<noteq> None"
    by (rule example_editing_fields)
  show ?thesis
    using area_selection_appends_region
            [OF h1 h2 h3 h4 h5, of example_selection "Inl []" "Inr example_stream"] h1 h5
    by (simp add: example_editing_fields)
qed

text \<open>
  The claim as stated fails when the reconnect cannot construct the stream processor:
  camera 1 is connected and in edit mode, a drag completes, and the construction
  throws. The camera is left disconnected, the working set is empty and the saved
  configuration holds one region.
\<close>

theorem area_selection_failed_reconnect:
  "m_streamProcessors example_editing cam1 \<noteq> None
   \<and> m_motionAreaSetupEnabled example_editing cam1 = Some True
   \<and> m_streamProcessors
        (VideoFrameAreaSelection 1 example_selection (Inl []) (Inl ''no stream'') example_editing)
        cam1 = None
   \<and> length (working_set
        (VideoFrameAreaSelection 1 example_selection (Inl []) (Inl ''no stream'') example_editing)
        cam1) = 0
   \<and> map_option length (regions_in (camDbFile
        (VideoFrameAreaSelection 1 example_selection (Inl []) (Inl ''no stream'') example_editing))
        cam1) = Some 1"
proof -
  have h1: "FindCamera cam1 (m_camDb example_editing) = Some (example_camera cam1)"
    by (simp add: example_editing_fields example_find)
  have h2: "camId (example_camera cam1) = cam1"
    by (simp add: example_find)
  have h3: "cameraId cam1 = 1" and h4: "cam1 \<noteq> noCam"
    by simp_all
  have h5: "m_streamProcessors example_editing cam1 \<noteq> None"
    by (rule example_editing_fields)
  note e = VideoFrameAreaSelection_effect [OF h1 h2 h3 h4 h5, of example_selection]
  show ?thesis
    using e(1) [of "Inl []" "Inl ''no stream''"] e(2) [of "Inl []" "Inl ''no stream''"]
          e(7) [of "Inl []" "''no stream''"] e(8) [of "Inl []" "''no stream''"] h5
    by (simp add: example_editing_fields working_set_def map_index_def regions_in_def
          FindCamera_def)
qed

text \<open>
  C7: with a configuration for the slot, a confirmed removal leaves the configuration
  in the database and in the saved database without motion regions and the working set
  empty, whatever the two toggles of the reconnect meet; a declined removal returns the
  window as it was, so nothing is reconnected.
\<close>

theorem remove_regions_confirmed_or_declined:
  assumes db: "FindCamera k (m_camDb st) = Some camera" and id: "camId camera = k"
  shows "regions_in (m_camDb (RemoveMotionRegions k Yes a1 a2 st)) k = Some []
       \<and> regions_in (camDbFile (RemoveMotionRegions k Yes a1 a2 st)) k = Some []
       \<and> working_set (RemoveMotionRegions k Yes a1 a2 st) k = []
       \<and> RemoveMotionRegions k No a1 a2 st = st"
proof -
  define camera' where "camera' = camera\<lparr>motionRegions := []\<rparr>"
  define st1 where "st1 = UpdateCamera_and_Save camera'
      (st\<lparr>m_camMotionRegions := (m_camMotionRegions st)(k \<mapsto> [])\<rparr>)"
  have eq: "RemoveMotionRegions k Yes a1 a2 st = ReconnectCamera k a1 a2 st1"
    using db by (simp add: RemoveMotionRegions_def Let_def st1_def camera'_def map_index_def)
  have id': "camId camera' = k" using id by (simp add: camera'_def)
  have db1: "FindCamera k (m_camDb st1) = Some camera'"
    using id' by (simp add: st1_def FindCamera_def)
  have w1: "working_set st1 k = []"
    by (simp add: st1_def working_set_def map_index_def)
  have "working_set (ReconnectCamera k a1 a2 st1) k = []"
    using ReconnectCamera_working_set [OF db1 id', of a1 a2] w1
    by (auto simp add: camera'_def)
  moreover have "regions_in (m_camDb (ReconnectCamera k a1 a2 st1)) k = Some []"
    and "regions_in (camDbFile (ReconnectCamera k a1 a2 st1)) k = Some []"
    using id' by (simp_all add: st1_def regions_in_def camera'_def)
  moreover have "RemoveMotionRegions k No a1 a2 st = st"
    using db by (simp add: RemoveMotionRegions_def)
  ultimately show ?thesis
    by (simp add: eq)
qed

theorem remove_regions_confirmed_or_declined_witness:
  "regions_in (m_camDb example_with_region) cam1 = Some [region_of example_selection]
   \<and> regions_in (m_camDb
        (RemoveMotionRegions cam1 Yes (Inl []) (Inr example_stream) example_with_region)) cam1 = Some []
   \<and> regions_in (camDbFile
        (RemoveMotionRegions cam1 Yes (Inl []) (Inr example_stream) example_with_region)) cam1 = Some []
   \<and> working_set
        (RemoveMotionRegions cam1 Yes (Inl []) (Inr example_stream) example_with_region) cam1 = []
   \<and> RemoveMotionRegions cam1 No (Inl []) (Inr example_stream) example_with_region =
        example_with_region"
proof -
  have h1: "FindCamera cam1 (m_camDb example_with_region) =
      Some ((example_camera cam1)\<lparr>motionRegions := [region_of example_selection]\<rparr>)"
    using example_with_region_fields(1) .
  have h2: "camId ((example_camera cam1)\<lparr>motionRegions := [region_of example_selection]\<rparr>) = cam1"
    by (simp add: example_find)
  show ?thesis
    using remove_regions_confirmed_or_declined [OF h1 h2, of "Inl []" "Inr example_stream"] h1
    by (simp add: regions_in_def FindCamera_def)
qed

text \<open>
  C10: a connect toggle on a connected slot closes the expanded view and resets its
  target to \<open>noCam\<close> when the view is visible and shows this slot; otherwise the
  expanded view and its target stay as they are.
\<close>

theorem disconnect_closes_expanded_view:
  assumes "FindCamera k (m_camDb st) = Some camera" and "camId camera = k"
      and "m_streamProcessors st k \<noteq> None"
  shows "if vform_visible (m_videoForm st) \<and> m_videoFormId st = k
         then vform_visible (m_videoForm (on_connectToolButton_clicked k attempt st)) = False
            \<and> m_videoFormId (on_connectToolButton_clicked k attempt st) = noCam
         else m_videoForm (on_connectToolButton_clicked k attempt st) = m_videoForm st
            \<and> m_videoFormId (on_connectToolButton_clicked k attempt st) = m_videoFormId st"
  using assms
  by (auto simp add: on_connectToolButton_clicked_def ConnectionHandler_def
        ConnectionHandler_disconnect_form Let_def)

theorem disconnect_closes_expanded_view_witness:
  "vform_visible (m_videoForm (ShowExpandedVideoForm cam1 example_two_connected)) = True
   \<and> m_videoFormId (ShowExpandedVideoForm cam1 example_two_connected) = cam1
   \<and> vform_visible (m_videoForm (on_connectToolButton_clicked cam1 (Inl [])
        (ShowExpandedVideoForm cam1 example_two_connected))) = False
   \<and> m_videoFormId (on_connectToolButton_clicked cam1 (Inl [])
        (ShowExpandedVideoForm cam1 example_two_connected)) = noCam
   \<and> m_videoForm (on_connectToolButton_clicked cam2 (Inl [])
        (ShowExpandedVideoForm cam1 example_two_connected)) =
       m_videoForm (ShowExpandedVideoForm cam1 example_two_connected)
   \<and> m_videoFormId (on_connectToolButton_clicked cam2 (Inl [])
        (ShowExpandedVideoForm cam1 example_two_connected)) = cam1"
proof -
  define st where "st = ShowExpandedVideoForm cam1 example_two_connected"
  have v: "vform_visible (m_videoForm st) = True" "m_videoFormId st = cam1"
    by (simp_all add: st_def ShowExpandedVideoForm_def Let_def close_videoForm_def)
  have db: "m_camDb st = example_db"
    by (simp add: st_def ShowExpandedVideoForm_def Let_def close_videoForm_def
          example_two_connected_fields)
  have h1: "FindCamera cam1 (m_camDb st) = Some (example_camera cam1)"
    and h1': "FindCamera cam2 (m_camDb st) = Some (example_camera cam2)"
    by (simp_all add: db example_find)
  have h2: "camId (example_camera cam1) = cam1" and h2': "camId (example_camera cam2) = cam2"
    by (simp_all add: example_find)
  have h3: "m_streamProcessors st cam1 \<noteq> None" and h3': "m_streamProcessors st cam2 \<noteq> None"
    using example_two_connected_fields(2,3)
    by (simp_all add: st_def ShowExpandedVideoForm_def Let_def close_videoForm_def)
  show ?thesis
    using disconnect_closes_expanded_view [OF h1 h2 h3, of "Inl []"]
          disconnect_closes_expanded_view [OF h1' h2' h3', of "Inl []"] v
    unfolding st_def [symmetric] by simp
qed

subsection \<open>The frame renderer\<close>

lemma third_double:
  "ddiv (to_double 640) (to_double 1920) = Finite (6004799503160661 / 18014398509481984)"
  "fl (1 / 3) = 6004799503160661 / 18014398509481984"
  by code_simp+

lemma aspect_16_9:
  "ddiv (to_double 1920) (to_double 1080) = Finite (2001599834386887 / 1125899906842624)"
  "ddiv (to_double 640) (to_double 360) = Finite (2001599834386887 / 1125899906842624)"
  "to_int (dmul (to_double 360) (Finite (2001599834386887 / 1125899906842624))) = Some 640"
  by code_simp+

lemma scaleToFeed_1920_1080:
  assumes "img_width vf = 1920" and "img_height vf = 1080"
  shows "scaleToFeed 640 360 vf =
           Some (vf\<lparr>img_width := 640, img_height := 360\<rparr>,
                 Finite (6004799503160661 / 18014398509481984))"
  using assms
  by (simp add: scaleToFeed_def Let_def aspect_16_9 third_double QImage_scaled_def
        QSize_scaled_def img_isNull_def)

lemma rescale_300_300_100_100:
  "rescaleRect (Finite (6004799503160661 / 18014398509481984)) (QRect_xywh 300 300 100 100) =
     Some (QRect_xywh 100 100 34 34)"
  by code_simp

lemma scaleToFeed_unscaled:
  "\<not> (feedW < img_width vf \<or> feedH < img_height vf) \<Longrightarrow>
     scaleToFeed feedW feedH vf = Some (vf, Finite 1)"
  by (simp add: scaleToFeed_def)

lemma scaleToFeed_scaled:
  assumes "feedW < img_width vf \<or> feedH < img_height vf"
      and "scaleToFeed feedW feedH vf = Some (d, s)"
  shows "\<exists>newWidth newHeight.
           d = QImage_scaled newWidth newHeight vf
         \<and> s = ddiv (to_double newWidth) (to_double (img_width vf))
         \<and> (newWidth = feedW \<or> newHeight = feedH)"
  using assms
  by (auto simp add: scaleToFeed_def Let_def split: if_splits option.splits)

lemma paintAnnotations_dims [simp]:
  "img_width (paintAnnotations toRect d rect e rs w) = img_width d"
  "img_height (paintAnnotations toRect d rect e rs w) = img_height d"
  "img_pixels (paintAnnotations toRect d rect e rs w) = img_pixels d"
  by (simp_all add: paintAnnotations_def Let_def)

lemma renderDisplayFrame_dims:
  assumes "renderDisplayFrame toRect feedW feedH vf mbr e rs w = Some out"
  shows "\<exists>d s. scaleToFeed feedW feedH vf = Some (d, s)
            \<and> img_width out = img_width d \<and> img_height out = img_height d
            \<and> img_pixels out = img_pixels d"
  using assms
  by (auto simp add: renderDisplayFrame_def split: option.splits if_splits)


lemma render_motion_rect:
  assumes "scaleToFeed feedW feedH vf = Some (d, s)"
      and "\<not> isNull mbr" and "rescaleRect s mbr = Some rect"
  shows "renderDisplayFrame toRect feedW feedH vf mbr e regions w =
           Some (paintAnnotations toRect d rect e regions w)"
  using assms by (simp add: renderDisplayFrame_def)

text \<open>
  C4: in every rendered frame whose motion bounding rectangle is present (not null, and
  not null after the rescaling, which is what line 1319 tests), the rectangle is drawn
  exactly once, after the user regions: in red if and only if it intersects one of the
  user regions drawn in cyan, in green otherwise. The user regions are drawn only when
  the motion areas are enabled for the slot.
\<close>

theorem motion_rectangle_colour:
  assumes "scaleToFeed feedW feedH vf = Some (d, s)" and "\<not> img_isNull d"
      and "\<not> isNull mbr" and "rescaleRect s mbr = Some rect" and "\<not> isNull rect"
  shows "\<exists>colour.
           renderDisplayFrame toRect feedW feedH vf mbr e regions w =
             Some (d\<lparr>img_painted := img_painted d
                        @ map (DrawRect cyan) (regionRects toRect d e regions)
                        @ [DrawRect colour rect] @ recordingLabel d w\<rparr>)
         \<and> (colour = red \<longleftrightarrow> (\<exists>r \<in> set (regionRects toRect d e regions). intersects rect r))
         \<and> (colour = green \<longleftrightarrow> \<not> (\<exists>r \<in> set (regionRects toRect d e regions). intersects rect r))
         \<and> (\<not> e \<longrightarrow> regionRects toRect d e regions = [])"
proof -
  define hit where "hit = list_ex (intersects rect) (regionRects toRect d e regions)"
  have "renderDisplayFrame toRect feedW feedH vf mbr e regions w =
          Some (d\<lparr>img_painted := img_painted d
                        @ map (DrawRect cyan) (regionRects toRect d e regions)
                        @ [DrawRect (if hit then red else green) rect] @ recordingLabel d w\<rparr>)"
    using assms by (simp add: render_motion_rect paintAnnotations_def Let_def hit_def)
  moreover have "hit \<longleftrightarrow> (\<exists>r \<in> set (regionRects toRect d e regions). intersects rect r)"
    by (simp add: hit_def list_ex_iff)
  moreover have "\<not> e \<longrightarrow> regionRects toRect d e regions = []"
    by (simp add: regionRects_def)
  ultimately show ?thesis
    by (intro exI [of _ "if hit then red else green"]) auto
qed

lemma example_region_rect:
  "regionRects example_toRect (example_frame\<lparr>img_width := 640, img_height := 360\<rparr>) True
     example_regions = [QRect_xywh 80 45 160 90]"
  by code_simp

lemma example_hit:
  "intersects (QRect_xywh 100 100 34 34) (QRect_xywh 80 45 160 90) = True"
  "isNull (QRect_xywh 100 100 34 34) = False"
  "isNull (QRect_xywh 300 300 100 100) = False"
  by code_simp+

theorem motion_rectangle_colour_witness:
  "scaleToFeed 640 360 example_frame =
     Some (example_frame\<lparr>img_width := 640, img_height := 360\<rparr>,
           Finite (6004799503160661 / 18014398509481984))
   \<and> \<not> img_isNull (example_frame\<lparr>img_width := 640, img_height := 360\<rparr>)
   \<and> \<not> isNull (QRect_xywh 300 300 100 100)
   \<and> rescaleRect (Finite (6004799503160661 / 18014398509481984)) (QRect_xywh 300 300 100 100) =
       Some (QRect_xywh 100 100 34 34)
   \<and> \<not> isNull (QRect_xywh 100 100 34 34)
   \<and> renderDisplayFrame example_toRect 640 360 example_frame (QRect_xywh 300 300 100 100)
        True example_regions False =
       Some (example_frame\<lparr>img_width := 640, img_height := 360,
               img_painted := [DrawRect cyan (QRect_xywh 80 45 160 90),
                               DrawRect red (QRect_xywh 100 100 34 34)]\<rparr>)
   \<and> renderDisplayFrame example_toRect 640 360 example_frame (QRect_xywh 300 300 100 100)
        False example_regions False =
       Some (example_frame\<lparr>img_width := 640, img_height := 360,
               img_painted := [DrawRect green (QRect_xywh 100 100 34 34)]\<rparr>)"
proof -
  have h1: "scaleToFeed 640 360 example_frame =
     Some (example_frame\<lparr>img_width := 640, img_height := 360\<rparr>,
           Finite (6004799503160661 / 18014398509481984))"
    by (rule scaleToFeed_1920_1080) (simp_all add: example_frame_def)
  have h0: "\<not> img_isNull (example_frame\<lparr>img_width := 640, img_height := 360\<rparr>)"
    by (simp add: img_isNull_def)
  have h2: "\<not> isNull (QRect_xywh 300 300 100 100)"
    by (simp add: example_hit)
  have h3: "rescaleRect (Finite (6004799503160661 / 18014398509481984)) (QRect_xywh 300 300 100 100) =
       Some (QRect_xywh 100 100 34 34)"
    by (rule rescale_300_300_100_100)
  have h4: "\<not> isNull (QRect_xywh 100 100 34 34)"
    by (simp add: example_hit)
  have p: "img_painted example_frame = []"
    by (simp add: example_frame_def)
  have off: "regionRects example_toRect (example_frame\<lparr>img_width := 640, img_height := 360\<rparr>) False
     example_regions = []"
    by (simp add: regionRects_def)
  from motion_rectangle_colour [OF h1 h0 h2 h3 h4, of example_toRect True example_regions False]
  have a: "renderDisplayFrame example_toRect 640 360 example_frame (QRect_xywh 300 300 100 100)
        True example_regions False =
       Some (example_frame\<lparr>img_width := 640, img_height := 360,
               img_painted := [DrawRect cyan (QRect_xywh 80 45 160 90),
                               DrawRect red (QRect_xywh 100 100 34 34)]\<rparr>)"
    by (auto simp add: example_region_rect example_hit recordingLabel_def p)
  from motion_rectangle_colour [OF h1 h0 h2 h3 h4, of example_toRect False example_regions False]
  have b: "renderDisplayFrame example_toRect 640 360 example_frame (QRect_xywh 300 300 100 100)
        False example_regions False =
       Some (example_frame\<lparr>img_width := 640, img_height := 360,
               img_painted := [DrawRect green (QRect_xywh 100 100 34 34)]\<rparr>)"
    by (auto simp add: off recordingLabel_def p)
  from h1 h0 h2 h3 h4 a b show ?thesis
    by (intro conjI)
qed


lemma third_error: "\<bar>6004799503160661 / 18014398509481984 - 1 / 3\<bar> < (1 / 2 ^ 54 :: rat)"
  by simp

text \<open>
  C3: a raw frame of 1920 by 1080 in a feed of 640 by 360 is scaled to 640 by 360 with
  the factor \<open>fl (1/3)\<close>, the double next to one third; the motion rectangle
  \<open>(300, 300, 100, 100)\<close> becomes \<open>(100, 100, 34, 34)\<close>, each coordinate within one
  pixel of \<open>(100, 100, 33, 33)\<close>. For every frame \<open>g\<close> and feed size, the frame is scaled
  exactly when the feed is narrower or lower than the frame; otherwise the frame is
  shown as it is and the factor is 1.
\<close>

theorem render_1920x1080_into_640x360:
  assumes "img_width vf = 1920" and "img_height vf = 1080"
  shows "(\<exists>s r.
           scaleToFeed 640 360 vf = Some (vf\<lparr>img_width := 640, img_height := 360\<rparr>, Finite s)
         \<and> s = fl (1 / 3) \<and> \<bar>s - 1 / 3\<bar> < 1 / 2 ^ 54
         \<and> rescaleRect (Finite s) (QRect_xywh 300 300 100 100) = Some r
         \<and> r = QRect_xywh 100 100 34 34
         \<and> \<bar>r_left r - 100\<bar> \<le> 1 \<and> \<bar>r_top r - 100\<bar> \<le> 1
         \<and> \<bar>r_width r - 33\<bar> \<le> 1 \<and> \<bar>r_height r - 33\<bar> \<le> 1
         \<and> renderDisplayFrame toRect 640 360 vf (QRect_xywh 300 300 100 100) False regions False =
             Some (vf\<lparr>img_width := 640, img_height := 360,
                       img_painted := img_painted vf @ [DrawRect green r]\<rparr>))
       \<and> (\<not> (feedW < img_width g \<or> feedH < img_height g) \<longrightarrow>
            scaleToFeed feedW feedH g = Some (g, Finite 1))
       \<and> ((feedW < img_width g \<or> feedH < img_height g) \<and> scaleToFeed feedW feedH g = Some (d, f) \<longrightarrow>
            (\<exists>newWidth newHeight.
               d = QImage_scaled newWidth newHeight g
             \<and> f = ddiv (to_double newWidth) (to_double (img_width g))
             \<and> (newWidth = feedW \<or> newHeight = feedH)))"
proof (intro conjI)
  have sc: "scaleToFeed 640 360 vf =
      Some (vf\<lparr>img_width := 640, img_height := 360\<rparr>, Finite (6004799503160661 / 18014398509481984))"
    using assms by (rule scaleToFeed_1920_1080)
  have nn: "\<not> isNull (QRect_xywh 300 300 100 100)" "\<not> isNull (QRect_xywh 100 100 34 34)"
    by (simp_all add: isNull_def QRect_xywh_def)
  have "renderDisplayFrame toRect 640 360 vf (QRect_xywh 300 300 100 100) False regions False =
             Some (vf\<lparr>img_width := 640, img_height := 360,
                       img_painted := img_painted vf @ [DrawRect green (QRect_xywh 100 100 34 34)]\<rparr>)"
    using nn
    by (simp add: render_motion_rect [OF sc nn(1) rescale_300_300_100_100] paintAnnotations_def
          Let_def regionRects_def recordingLabel_def img_isNull_def)
  then show "\<exists>s r.
           scaleToFeed 640 360 vf = Some (vf\<lparr>img_width := 640, img_height := 360\<rparr>, Finite s)
         \<and> s = fl (1 / 3) \<and> \<bar>s - 1 / 3\<bar> < 1 / 2 ^ 54
         \<and> rescaleRect (Finite s) (QRect_xywh 300 300 100 100) = Some r
         \<and> r = QRect_xywh 100 100 34 34
         \<and> \<bar>r_left r - 100\<bar> \<le> 1 \<and> \<bar>r_top r - 100\<bar> \<le> 1
         \<and> \<bar>r_width r - 33\<bar> \<le> 1 \<and> \<bar>r_height r - 33\<bar> \<le> 1
         \<and> renderDisplayFrame toRect 640 360 vf (QRect_xywh 300 300 100 100) False regions False =
             Some (vf\<lparr>img_width := 640, img_height := 360,
                       img_painted := img_painted vf @ [DrawRect green r]\<rparr>)"
    using sc rescale_300_300_100_100 third_error
    by (intro exI [of _ "6004799503160661 / 18014398509481984"] exI [of _ "QRect_xywh 100 100 34 34"])
       (simp add: third_double QRect_xywh_def r_width_def r_height_def)
  show "\<not> (feedW < img_width g \<or> feedH < img_height g) \<longrightarrow>
           scaleToFeed feedW feedH g = Some (g, Finite 1)"
    by (simp add: scaleToFeed_unscaled)
  show "(feedW < img_width g \<or> feedH < img_height g) \<and> scaleToFeed feedW feedH g = Some (d, f) \<longrightarrow>
           (\<exists>newWidth newHeight.
              d = QImage_scaled newWidth newHeight g
            \<and> f = ddiv (to_double newWidth) (to_double (img_width g))
            \<and> (newWidth = feedW \<or> newHeight = feedH))"
    using scaleToFeed_scaled [of feedW g feedH d f] by blast
qed

theorem render_1920x1080_into_640x360_witness:
  "img_width example_frame = 1920 \<and> img_height example_frame = 1080
   \<and> scaleToFeed 640 360 example_frame =
       Some (example_frame\<lparr>img_width := 640, img_height := 360\<rparr>, Finite (fl (1 / 3)))
   \<and> rescaleRect (Finite (fl (1 / 3))) (QRect_xywh 300 300 100 100) = Some (QRect_xywh 100 100 34 34)
   \<and> renderDisplayFrame example_toRect 640 360 example_frame (QRect_xywh 300 300 100 100)
        False [] False =
       Some (example_frame\<lparr>img_width := 640, img_height := 360,
               img_painted := [DrawRect green (QRect_xywh 100 100 34 34)]\<rparr>)
   \<and> \<not> (1920 < img_width example_frame \<or> 1080 < img_height example_frame)
   \<and> scaleToFeed 1920 1080 example_frame = Some (example_frame, Finite 1)
   \<and> (301 < img_width example_wide_frame \<or> 300 < img_height example_wide_frame)
   \<and> scaleToFeed 301 300 example_wide_frame =
       Some (example_wide_frame\<lparr>img_width := 300, img_height := 150\<rparr>, Finite (301 / 1024))
   \<and> (\<exists>newWidth newHeight.
         example_wide_frame\<lparr>img_width := 300, img_height := 150\<rparr> =
           QImage_scaled newWidth newHeight example_wide_frame
       \<and> Finite (301 / 1024) = ddiv (to_double newWidth) (to_double (img_width example_wide_frame))
       \<and> (newWidth = 301 \<or> newHeight = 300))"
proof -
  have h1: "img_width example_frame = 1920" and h2: "img_height example_frame = 1080"
    and p: "img_painted example_frame = []"
    by (simp_all add: example_frame_def)
  have h3: "\<not> (1920 < img_width example_frame \<or> 1080 < img_height example_frame)"
    by (simp add: example_frame_def)
  have h4: "301 < img_width example_wide_frame \<or> 300 < img_height example_wide_frame"
    by (simp add: example_wide_frame_def)
  have h5: "scaleToFeed 301 300 example_wide_frame =
       Some (example_wide_frame\<lparr>img_width := 300, img_height := 150\<rparr>, Finite (301 / 1024))"
    by code_simp
  from render_1920x1080_into_640x360 [OF h1 h2, of example_toRect "[]" 1920 example_frame 1080]
  have a: "scaleToFeed 640 360 example_frame =
       Some (example_frame\<lparr>img_width := 640, img_height := 360\<rparr>, Finite (fl (1 / 3)))"
    and b: "rescaleRect (Finite (fl (1 / 3))) (QRect_xywh 300 300 100 100) = Some (QRect_xywh 100 100 34 34)"
    and c: "renderDisplayFrame example_toRect 640 360 example_frame (QRect_xywh 300 300 100 100)
        False [] False =
       Some (example_frame\<lparr>img_width := 640, img_height := 360,
               img_painted := [DrawRect green (QRect_xywh 100 100 34 34)]\<rparr>)"
    and d: "scaleToFeed 1920 1080 example_frame = Some (example_frame, Finite 1)"
    using h3 by (auto simp add: p)
  from render_1920x1080_into_640x360 [OF h1 h2, of example_toRect "[]" 301 example_wide_frame 300
      "example_wide_frame\<lparr>img_width := 300, img_height := 150\<rparr>" "Finite (301 / 1024)"] h4 h5
  have e: "\<exists>newWidth newHeight.
         example_wide_frame\<lparr>img_width := 300, img_height := 150\<rparr> =
           QImage_scaled newWidth newHeight example_wide_frame
       \<and> Finite (301 / 1024) = ddiv (to_double newWidth) (to_double (img_width example_wide_frame))
       \<and> (newWidth = 301 \<or> newHeight = 300)"
    by blast
  from h1 h2 a b c h3 d h4 h5 e show ?thesis
    by (intro conjI)
qed



lemma UpdateCamFeedFrame_fields:
  assumes "UpdateCamFeedFrame toRect k vf mbr w st = Some st'"
  shows "m_streamProcessors st' = m_streamProcessors st"
    and "m_camDb st' = m_camDb st"
    and "m_videoForm st' = m_videoForm st"
    and "m_videoFormId st' = m_videoFormId st"
    and "j \<noteq> k \<Longrightarrow> m_camFeeds st' j = m_camFeeds st j"
    and "map_index False (m_motionAreaSetupEnabled st') j = map_index False (m_motionAreaSetupEnabled st) j"
    and "map_index [] (m_camMotionRegions st') j = map_index [] (m_camMotionRegions st) j"
  using assms
  by (auto simp add: UpdateCamFeedFrame_def SetVideoFrame_def Let_def map_touch_def map_index_def
        split: option.splits if_splits)

lemma UpdateCamFeedFrame_shown:
  assumes "UpdateCamFeedFrame toRect k vf mbr w st = Some st'" and "m_camFeeds st k = Some feed"
  shows "\<exists>out. renderDisplayFrame toRect (vf_width feed) (vf_height feed) vf mbr
                 (map_index False (m_motionAreaSetupEnabled st) k)
                 (map_index [] (m_camMotionRegions st) k) w = Some out
             \<and> m_camFeeds st' k = Some (feed\<lparr>vf_frames := out # vf_frames feed\<rparr>)"
  using assms
  by (auto simp add: UpdateCamFeedFrame_def SetVideoFrame_def Let_def split: option.splits if_splits)

subsection \<open>The poll loop\<close>

lemma same_setup_refl [simp]: "same_setup st st"
  by (simp add: same_setup_def)

lemma same_setup_trans: "same_setup st st1 \<Longrightarrow> same_setup st1 st2 \<Longrightarrow> same_setup st st2"
  by (simp add: same_setup_def)

lemma map_index_touch [simp]: "map_index d (map_touch d m k) j = map_index d m j"
  by (simp add: map_index_def map_touch_def)

lemma UpdateCamFeedFrame_same_setup:
  "UpdateCamFeedFrame toRect k vf mbr w st = Some st' \<Longrightarrow> same_setup st st'"
  by (simp add: same_setup_def UpdateCamFeedFrame_fields)

lemma pollFeed_effect:
  assumes "pollFeed toRect k sp st = Some st'" and "m_streamProcessors st k = Some sp"
  shows "same_setup st st'"
    and "j \<noteq> k \<Longrightarrow> m_camFeeds st' j = m_camFeeds st j"
    and "frame_update toRect st st' k"
proof -
  show "same_setup st st'"
  proof (cases "VideoFrameUpdated (sp_stream sp)")
    case False
    with assms show ?thesis by (simp add: pollFeed_def)
  next
    case True
    with assms obtain st1 where u: "UpdateCamFeedFrame toRect k (CurrentVideoFrame (sp_stream sp))
        (CurrentMotionRect (sp_stream sp)) (VideoWritingEnabled (sp_stream sp)) st = Some st1"
      by (auto simp add: pollFeed_def Let_def split: option.splits)
    from UpdateCamFeedFrame_same_setup [OF u] have s1: "same_setup st st1" .
    have "same_setup st1 st'"
      using assms(1) True u
      by (auto simp add: pollFeed_def Let_def SetFpsInTitle_def same_setup_def split: if_splits)
    with s1 show ?thesis by (rule same_setup_trans)
  qed
  show "m_camFeeds st' j = m_camFeeds st j" if "j \<noteq> k"
    using assms(1) that UpdateCamFeedFrame_fields(5) [of toRect k _ _ _ st _ j]
    by (auto simp add: pollFeed_def Let_def SetFpsInTitle_def split: option.splits if_splits)
  show "frame_update toRect st st' k"
  proof (cases "VideoFrameUpdated (sp_stream sp)")
    case False
    with assms show ?thesis by (simp add: pollFeed_def frame_update_def)
  next
    case True
    with assms obtain st1 where u: "UpdateCamFeedFrame toRect k (CurrentVideoFrame (sp_stream sp))
        (CurrentMotionRect (sp_stream sp)) (VideoWritingEnabled (sp_stream sp)) st = Some st1"
      by (auto simp add: pollFeed_def Let_def split: option.splits)
    have f: "m_camFeeds st' = m_camFeeds st1"
      using assms(1) True u
      by (auto simp add: pollFeed_def Let_def SetFpsInTitle_def split: if_splits)
    show ?thesis
    proof (cases "m_camFeeds st k")
      case None
      with u have "m_camFeeds st1 = m_camFeeds st"
        by (auto simp add: UpdateCamFeedFrame_def)
      with f show ?thesis by (simp add: frame_update_def)
    next
      case (Some feed)
      from UpdateCamFeedFrame_shown [OF u Some] f assms(2) True Some show ?thesis
        unfolding frame_update_def by auto
    qed
  qed
qed

lemma frame_update_shift:
  assumes "same_setup st st1" and "m_camFeeds st1 k = m_camFeeds st k"
      and "frame_update toRect st1 st' k"
  shows "frame_update toRect st st' k"
  using assms unfolding frame_update_def same_setup_def by auto

lemma pollFeeds_effect:
  "pollFeeds toRect ks st = Some st' \<Longrightarrow> distinct ks \<Longrightarrow>
     same_setup st st'
   \<and> (\<forall>j. j \<notin> set ks \<or> m_streamProcessors st j = None \<longrightarrow> m_camFeeds st' j = m_camFeeds st j)
   \<and> (\<forall>j. frame_update toRect st st' j)"
proof (induction ks arbitrary: st)
  case Nil
  then show ?case by (simp add: frame_update_def)
next
  case (Cons k ks)
  show ?case
  proof (cases "m_streamProcessors st k")
    case None
    with Cons.prems have "pollFeeds toRect ks st = Some st'" by simp
    from Cons.IH [OF this] Cons.prems(2) None show ?thesis
      by auto
  next
    case (Some sp)
    with Cons.prems obtain st1 where p: "pollFeed toRect k sp st = Some st1"
      and r: "pollFeeds toRect ks st1 = Some st'"
      by (auto split: option.splits)
    note e = pollFeed_effect [OF p Some]
    from Cons.IH [OF r] Cons.prems(2)
    have ih: "same_setup st1 st'"
      "\<And>j. j \<notin> set ks \<or> m_streamProcessors st1 j = None \<Longrightarrow> m_camFeeds st' j = m_camFeeds st1 j"
      "\<And>j. frame_update toRect st1 st' j"
      by auto
    have sp: "m_streamProcessors st1 = m_streamProcessors st"
      using e(1) by (simp add: same_setup_def)
    have a: "same_setup st st'"
      using e(1) ih(1) by (rule same_setup_trans)
    have b: "m_camFeeds st' j = m_camFeeds st j"
      if "j \<notin> set (k # ks) \<or> m_streamProcessors st j = None" for j
    proof -
      from that Some have jk: "j \<noteq> k" by auto
      from that have "j \<notin> set ks \<or> m_streamProcessors st1 j = None" by (auto simp add: sp)
      then have "m_camFeeds st' j = m_camFeeds st1 j" by (rule ih(2))
      with e(2) [OF jk] show ?thesis by simp
    qed
    have c: "frame_update toRect st st' j" for j
    proof (cases "j = k")
      case True
      from Cons.prems(2) have "k \<notin> set ks" by simp
      then have "m_camFeeds st' k = m_camFeeds st1 k" by (simp add: ih(2))
      with e(3) True show ?thesis
        unfolding frame_update_def by auto
    next
      case False
      from e(1) e(2) [OF False] ih(3) [of j] show ?thesis
        by (rule frame_update_shift)
    qed
    from a b c show ?thesis by blast
  qed
qed

text \<open>
  C8: a tick that completes hands every feed at most one bitmap, the rendering of the
  frame its stream processor holds at the tick (no earlier frame is kept or queued by
  the window), and leaves the feed of a slot without a stream processor as it was. The
  tick does not change the stream processors.
\<close>

theorem poll_tick_at_most_one_frame:
  assumes "on_updateFeedsTimer toRect st = Some st'"
  shows "frame_update toRect st st' k
       \<and> (m_streamProcessors st k = None \<longrightarrow> m_camFeeds st' k = m_camFeeds st k)
       \<and> m_streamProcessors st' = m_streamProcessors st"
proof -
  have "distinct all_camIds" by (simp add: all_camIds_def)
  from pollFeeds_effect [OF assms [unfolded on_updateFeedsTimer_def] this]
  show ?thesis by (auto simp add: same_setup_def)
qed


lemma example_connected_fields:
  "m_camFeeds example_connected = [cam1 \<mapsto> example_feed]"
  "m_motionAreaSetupEnabled example_connected = Map.empty"
  "m_camMotionRegions example_connected = Map.empty"
  "vform_visible (m_videoForm example_connected) = False"
  "m_streamProcessors example_connected noCam = None"
  "map_option sp_stream (m_streamProcessors example_connected cam1) = Some example_stream"
  "m_streamProcessors example_connected cam2 = None"
  "m_streamProcessors example_connected cam3 = None"
  "m_streamProcessors example_connected cam4 = None"
  by (simp_all add: example_connected_def on_connectToolButton_clicked_def example_find
        example_window_fields ConnectionHandler_def ConnectionHandler_connect_def Let_def
        button_ops example_feed_def)

lemma example_render:
  "renderDisplayFrame example_toRect 640 360 example_frame (QRect_xywh 300 300 100 100)
     False [] False = Some example_shown"
  by code_simp

lemma example_update:
  "UpdateCamFeedFrame example_toRect cam1 example_frame (QRect_xywh 300 300 100 100) False
     example_connected =
   Some (example_connected
           \<lparr>m_motionAreaSetupEnabled := [cam1 \<mapsto> False],
            m_camFeeds := [cam1 \<mapsto> example_feed\<lparr>vf_frames := [example_shown]\<rparr>]\<rparr>)"
  by (simp add: UpdateCamFeedFrame_def example_connected_fields Let_def map_index_def
        map_touch_def example_feed_def example_render SetVideoFrame_def)

lemma example_stream_fields:
  "VideoFrameUpdated example_stream = True"
  "CurrentVideoFrame example_stream = example_frame"
  "CurrentMotionRect example_stream = QRect_xywh 300 300 100 100"
  "OriginalFps example_stream = Finite 25"
  "CurrentFps example_stream = Finite 25"
  "VideoWritingEnabled example_stream = False"
  by (simp_all add: example_stream_def)

lemma example_tick:
  "\<exists>st'. on_updateFeedsTimer example_toRect example_connected = Some st'
        \<and> m_camFeeds st' = [cam1 \<mapsto> example_feed\<lparr>vf_frames := [example_shown]\<rparr>]"
proof -
  obtain sp where sp: "m_streamProcessors example_connected cam1 = Some sp"
    and s: "sp_stream sp = example_stream"
    using example_connected_fields(6) by auto
  define st1 where "st1 = SetFpsInTitle cam1 (Finite 25) (Finite 25) (example_connected
           \<lparr>m_motionAreaSetupEnabled := [cam1 \<mapsto> False],
            m_camFeeds := [cam1 \<mapsto> example_feed\<lparr>vf_frames := [example_shown]\<rparr>]\<rparr>)"
  have p: "pollFeed example_toRect cam1 sp example_connected = Some st1"
    by (simp add: pollFeed_def s example_stream_fields Let_def st1_def SetFpsInTitle_def
          example_update example_connected_fields)
  have o: "m_streamProcessors st1 = m_streamProcessors example_connected"
    by (simp add: st1_def SetFpsInTitle_def)
  have "on_updateFeedsTimer example_toRect example_connected = Some st1"
    by (simp add: on_updateFeedsTimer_def all_camIds_def example_connected_fields sp p o)
  moreover have "m_camFeeds st1 = [cam1 \<mapsto> example_feed\<lparr>vf_frames := [example_shown]\<rparr>]"
    by (simp add: st1_def SetFpsInTitle_def)
  ultimately show ?thesis by blast
qed


theorem poll_tick_at_most_one_frame_witness:
  "\<exists>st'. on_updateFeedsTimer example_toRect example_connected = Some st'
        \<and> frame_update example_toRect example_connected st' cam1
        \<and> m_camFeeds st' cam1 = Some (example_feed\<lparr>vf_frames := [example_shown]\<rparr>)
        \<and> m_streamProcessors example_connected cam2 = None
        \<and> m_camFeeds st' cam2 = m_camFeeds example_connected cam2
        \<and> m_streamProcessors st' = m_streamProcessors example_connected"
proof -
  from example_tick obtain st' where
    t: "on_updateFeedsTimer example_toRect example_connected = Some st'"
    and f: "m_camFeeds st' = [cam1 \<mapsto> example_feed\<lparr>vf_frames := [example_shown]\<rparr>]"
    by blast
  have n: "m_streamProcessors example_connected cam2 = None"
    by (rule example_connected_fields)
  from poll_tick_at_most_one_frame [OF t, of cam1] poll_tick_at_most_one_frame [OF t, of cam2] n
  have "frame_update example_toRect example_connected st' cam1"
    and "m_camFeeds st' cam2 = m_camFeeds example_connected cam2"
    and "m_streamProcessors st' = m_streamProcessors example_connected"
    by auto
  with t f n show ?thesis
    by (intro exI [of _ st']) simp
qed

subsection \<open>Rounding, rescaling and intersection\<close>

lemma bitlen_0 [simp]: "bitlen 0 = 0"
  by (subst bitlen.simps) simp

lemma bitlen_Suc: "0 < n \<Longrightarrow> bitlen n = Suc (bitlen (n div 2))"
  by (subst bitlen.simps) simp

lemma bitlen_pos: "0 < n \<Longrightarrow> 0 < bitlen n"
  by (simp add: bitlen_Suc)

lemma bitlen_bounds:
  "0 < n \<Longrightarrow> 2 ^ (bitlen n - 1) \<le> n \<and> n < 2 ^ bitlen n"
proof (induction n rule: bitlen.induct)
  case (1 n)
  have bl: "bitlen n = Suc (bitlen (n div 2))" using 1(2) by (rule bitlen_Suc)
  show ?case
  proof (cases "n div 2 = 0")
    case True
    with 1(2) have n: "n = 1" by arith
    from bl True have "bitlen n = 1" by simp
    with n show ?thesis by simp
  next
    case False
    with 1 have ih: "2 ^ (bitlen (n div 2) - 1) \<le> n div 2" "n div 2 < 2 ^ bitlen (n div 2)"
      by auto
    from False have pos: "0 < bitlen (n div 2)" by (simp add: bitlen_pos)
    then obtain m where m: "bitlen (n div 2) = Suc m" by (cases "bitlen (n div 2)") auto
    have "(2::nat) ^ (bitlen n - 1) = 2 * 2 ^ m"
      by (simp add: bl m)
    also have "\<dots> \<le> 2 * (n div 2)" using ih(1) by (simp add: m)
    also have "\<dots> \<le> n" by simp
    finally have lo: "2 ^ (bitlen n - 1) \<le> n" .
    have "n < 2 * (n div 2) + 2" by arith
    also have "\<dots> \<le> 2 * 2 ^ bitlen (n div 2)" using ih(2) by simp
    finally have hi: "n < 2 ^ bitlen n" by (simp add: bl)
    from lo hi show ?thesis by simp
  qed
qed

lemma bitlen_bounds_rat:
  assumes "0 < n"
  shows "(2::rat) ^ (bitlen n - 1) \<le> of_nat n" and "(of_nat n + 1 :: rat) \<le> 2 ^ bitlen n"
proof -
  from bitlen_bounds [OF assms] have a: "2 ^ (bitlen n - 1) \<le> n" and b: "n + 1 \<le> 2 ^ bitlen n"
    by simp_all
  from a have "(of_nat (2 ^ (bitlen n - 1)) :: rat) \<le> of_nat n"
    by (simp only: of_nat_le_iff)
  then show "(2::rat) ^ (bitlen n - 1) \<le> of_nat n" by simp
  from b have "(of_nat (n + 1) :: rat) \<le> of_nat (2 ^ bitlen n)"
    by (simp only: of_nat_le_iff)
  then show "(of_nat n + 1 :: rat) \<le> 2 ^ bitlen n" by simp
qed


lemma powi_nat: "(2::rat) powi (int k) = 2 ^ k"
  by (simp add: power_int_def)

lemma powi_neg_nat: "(2::rat) powi (- int k) = 1 / 2 ^ k"
  by (simp add: power_int_def field_simps)

lemma ilog2_ge1:
  assumes "1 \<le> x"
  shows "2 powi (ilog2 x) \<le> x \<and> x < 2 powi (ilog2 x + 1)"
proof -
  define n where "n = nat \<lfloor>x\<rfloor>"
  have fl1: "1 \<le> \<lfloor>x\<rfloor>" using assms by linarith
  then have n1: "0 < n" by (simp add: n_def)
  have nf: "(of_nat n :: rat) = of_int \<lfloor>x\<rfloor>"
    using fl1 by (simp add: n_def)
  have nx: "of_nat n \<le> x" "x < of_nat n + 1"
    unfolding nf by linarith+
  obtain m where m: "bitlen n = Suc m"
    using bitlen_pos [OF n1] by (cases "bitlen n") auto
  have e: "ilog2 x = int m" using assms by (simp add: ilog2_def n_def [symmetric] m)
  have e1: "ilog2 x + 1 = int (Suc m)" by (simp add: e)
  from bitlen_bounds_rat [OF n1] have "(2::rat) ^ m \<le> of_nat n" "(of_nat n + 1 :: rat) \<le> 2 ^ Suc m"
    by (simp_all add: m)
  with nx have "(2::rat) ^ m \<le> x" "x < 2 ^ Suc m" by linarith+
  then show ?thesis unfolding e1 unfolding e powi_nat by simp
qed


lemma ilog2_lt1:
  assumes "0 < x" and "x < 1"
  shows "2 powi (ilog2 x) \<le> x \<and> x < 2 powi (ilog2 x + 1)"
proof -
  define c where "c = \<lceil>1 / x\<rceil>"
  define n where "n = nat (c - 1)"
  have inv: "1 < 1 / x" using assms by simp
  have up: "1 / x \<le> of_int c" unfolding c_def by linarith
  have dn: "of_int c - 1 < 1 / x" unfolding c_def by linarith
  from inv up have "(1::rat) < of_int c" by linarith
  then have c2: "2 \<le> c" by linarith
  then have n1: "0 < n" by (simp add: n_def)
  have cn: "(of_int c :: rat) = of_nat n + 1" using c2 by (simp add: n_def)
  obtain m where m: "bitlen n = Suc m"
    using bitlen_pos [OF n1] by (cases "bitlen n") auto
  have e: "ilog2 x = - int (Suc m)"
    using assms by (simp add: ilog2_def c_def [symmetric] n_def [symmetric] m)
  have e1: "ilog2 x + 1 = - int m" by (simp add: e)
  from bitlen_bounds_rat [OF n1] have b: "(2::rat) ^ m \<le> of_nat n" "(of_nat n + 1 :: rat) \<le> 2 ^ Suc m"
    by (simp_all add: m)
  from up b(2) have "1 / x \<le> 2 ^ Suc m" unfolding cn by linarith
  then have "1 \<le> 2 ^ Suc m * x" using assms(1) by (simp add: pos_divide_le_eq)
  then have lo: "1 / 2 ^ Suc m \<le> x" by (simp add: pos_divide_le_eq mult.commute)
  from dn b(1) have "2 ^ m < 1 / x" unfolding cn by linarith
  then have "2 ^ m * x < 1" using assms(1) by (simp add: pos_less_divide_eq)
  then have hi: "x < 1 / 2 ^ m" by (simp add: pos_less_divide_eq mult.commute)
  from lo hi show ?thesis unfolding e1 unfolding e powi_neg_nat by simp
qed

lemma ilog2_bounds:
  "0 < x \<Longrightarrow> 2 powi (ilog2 x) \<le> x \<and> x < 2 powi (ilog2 x + 1)"
  using ilog2_ge1 [of x] ilog2_lt1 [of x] by (cases "1 \<le> x") auto


lemma ilog2_mono:
  assumes "0 < x" and "x \<le> y"
  shows "ilog2 x \<le> ilog2 y"
proof (rule ccontr)
  assume "\<not> ilog2 x \<le> ilog2 y"
  then have "ilog2 y + 1 \<le> ilog2 x" by simp
  then have "(2::rat) powi (ilog2 y + 1) \<le> 2 powi (ilog2 x)"
    by (rule power_int_increasing) simp
  moreover from assms have "0 < y" by simp
  ultimately show False
    using ilog2_bounds [of x] ilog2_bounds [of y] assms by linarith
qed

lemma round_half_even_bounds:
  "\<lfloor>x\<rfloor> \<le> round_half_even x \<and> round_half_even x \<le> \<lfloor>x\<rfloor> + 1"
  by (simp add: round_half_even_def Let_def)

lemma round_half_even_int [simp]: "round_half_even (of_int n) = n"
  by (simp add: round_half_even_def Let_def)

lemma round_half_even_mono:
  assumes "x \<le> y"
  shows "round_half_even x \<le> round_half_even y"
proof (cases "\<lfloor>x\<rfloor> = \<lfloor>y\<rfloor>")
  case False
  with assms have "\<lfloor>x\<rfloor> < \<lfloor>y\<rfloor>"
    using floor_mono [OF assms] by linarith
  then show ?thesis
    using round_half_even_bounds [of x] round_half_even_bounds [of y] by linarith
next
  case True
  then have "x - of_int \<lfloor>x\<rfloor> \<le> y - of_int \<lfloor>y\<rfloor>"
    using assms by simp
  then show ?thesis
    unfolding round_half_even_def Let_def True
    by (auto split: if_splits)
qed

text \<open>The significand of a positive rational lies between \<open>2^52\<close> and \<open>2^53\<close>.\<close>

lemma significand_bounds:
  assumes "0 < x"
  shows "2 ^ 52 \<le> x / 2 powi (ilog2 x - 52)" and "x / 2 powi (ilog2 x - 52) < 2 ^ 53"
proof -
  have p: "(0::rat) < 2 powi (ilog2 x - 52)" by simp
  have a: "(2::rat) powi (ilog2 x) = 2 powi (ilog2 x - 52) * 2 ^ 52"
  proof -
    have "(2::rat) powi (ilog2 x) = 2 powi ((ilog2 x - 52) + 52)"
      by (rule arg_cong [where f = "power_int 2"]) simp
    also have "\<dots> = 2 powi (ilog2 x - 52) * 2 powi 52"
      by (rule power_int_add) simp
    finally show ?thesis by simp
  qed
  have b: "(2::rat) powi (ilog2 x + 1) = 2 powi (ilog2 x - 52) * 2 ^ 53"
  proof -
    have "(2::rat) powi (ilog2 x + 1) = 2 powi ((ilog2 x - 52) + 53)"
      by (rule arg_cong [where f = "power_int 2"]) simp
    also have "\<dots> = 2 powi (ilog2 x - 52) * 2 powi 53"
      by (rule power_int_add) simp
    finally show ?thesis by simp
  qed
  from ilog2_bounds [OF assms] have "2 powi (ilog2 x - 52) * 2 ^ 52 \<le> x"
    and "x < 2 powi (ilog2 x - 52) * 2 ^ 53"
    unfolding a b by simp_all
  then show "2 ^ 52 \<le> x / 2 powi (ilog2 x - 52)" and "x / 2 powi (ilog2 x - 52) < 2 ^ 53"
    using p by (simp_all add: pos_le_divide_eq pos_divide_less_eq mult.commute)
qed

lemma fl_pos:
  assumes "0 < x"
  shows "fl x = of_int (round_half_even (x / 2 powi (ilog2 x - 52))) * 2 powi (ilog2 x - 52)"
  using assms by (simp add: fl_def Let_def)

lemma round_significand:
  assumes "0 < x"
  shows "2 ^ 52 \<le> round_half_even (x / 2 powi (ilog2 x - 52))"
    and "round_half_even (x / 2 powi (ilog2 x - 52)) \<le> 2 ^ 53"
proof -
  have "round_half_even (of_int (2 ^ 52)) \<le> round_half_even (x / 2 powi (ilog2 x - 52))"
    by (rule round_half_even_mono) (use significand_bounds(1) [OF assms] in simp)
  then show "2 ^ 52 \<le> round_half_even (x / 2 powi (ilog2 x - 52))"
    by (simp only: round_half_even_int)
  have "round_half_even (x / 2 powi (ilog2 x - 52)) \<le> round_half_even (of_int (2 ^ 53))"
    by (rule round_half_even_mono) (use significand_bounds(2) [OF assms] in simp)
  then show "round_half_even (x / 2 powi (ilog2 x - 52)) \<le> 2 ^ 53"
    by (simp only: round_half_even_int)
qed

lemma fl_pos_mono:
  assumes "0 < x" and "x \<le> y"
  shows "fl x \<le> fl y"
proof -
  from assms have y: "0 < y" by simp
  define ex where "ex = ilog2 x - 52"
  define ey where "ey = ilog2 y - 52"
  define mx where "mx = round_half_even (x / 2 powi ex)"
  define my where "my = round_half_even (y / 2 powi ey)"
  have fx: "fl x = of_int mx * 2 powi ex" and fy: "fl y = of_int my * 2 powi ey"
    using fl_pos [OF assms(1)] fl_pos [OF y] by (simp_all add: ex_def ey_def mx_def my_def)
  have le: "ex \<le> ey" using ilog2_mono [OF assms] by (simp add: ex_def ey_def)
  show ?thesis
  proof (cases "ex = ey")
    case True
    have "x / 2 powi ex \<le> y / 2 powi ey"
      unfolding True using assms(2) by (simp add: divide_right_mono)
    then have "mx \<le> my" unfolding mx_def my_def by (rule round_half_even_mono)
    then have "(of_int mx :: rat) * 2 powi ex \<le> of_int my * 2 powi ex"
      by (intro mult_right_mono) simp_all
    then show ?thesis by (simp add: fx fy True)
  next
    case False
    with le have lt: "ex + 1 \<le> ey" by simp
    have "(of_int mx :: rat) \<le> 2 ^ 53"
      using round_significand(2) [OF assms(1)]
      by (metis ex_def mx_def of_int_le_iff of_int_numeral of_int_power)
    then have "of_int mx * 2 powi ex \<le> (2 ^ 53 :: rat) * 2 powi ex"
      by (intro mult_right_mono) simp_all
    also have "\<dots> = 2 ^ 52 * 2 powi (ex + 1)"
    proof -
      have "(2::rat) powi (ex + 1) = 2 powi ex * 2 powi 1"
        by (rule power_int_add) simp
      then show ?thesis by simp
    qed
    also have "\<dots> \<le> 2 ^ 52 * 2 powi ey"
      using lt by (intro mult_left_mono power_int_increasing) simp_all
    also have "\<dots> \<le> of_int my * 2 powi ey"
    proof -
      have "(2 ^ 52 :: rat) \<le> of_int my"
        using round_significand(1) [OF y]
        by (metis ey_def my_def of_int_le_iff of_int_numeral of_int_power)
      then show ?thesis by (intro mult_right_mono) simp_all
    qed
    finally show ?thesis by (simp add: fx fy)
  qed
qed


lemma fl_0 [simp]: "fl 0 = 0"
  by (simp add: fl_def)

lemma fl_minus: "fl (- x) = - fl x"
  by (simp add: fl_def Let_def)

lemma fl_pos_pos:
  assumes "0 < x"
  shows "0 < fl x"
proof -
  have "(0::int) < 2 ^ 52" by simp
  also have "\<dots> \<le> round_half_even (x / 2 powi (ilog2 x - 52))"
    by (rule round_significand(1) [OF assms])
  finally have "(0::rat) < of_int (round_half_even (x / 2 powi (ilog2 x - 52)))"
    by simp
  then show ?thesis
    unfolding fl_pos [OF assms] by (intro mult_pos_pos) simp_all
qed

lemma fl_mono:
  assumes "x \<le> y"
  shows "fl x \<le> fl y"
proof -
  consider "0 < x" | "x \<le> 0" "0 \<le> y" | "y < 0" by linarith
  then show ?thesis
  proof cases
    case 1
    then show ?thesis using assms by (rule fl_pos_mono)
  next
    case 2
    have "fl x \<le> 0"
    proof (cases "x = 0")
      case False
      with 2 have "0 < - x" by simp
      from fl_pos_pos [OF this] show ?thesis by (simp add: fl_minus)
    qed simp
    moreover have "0 \<le> fl y"
    proof (cases "y = 0")
      case False
      with 2 have "0 < y" by simp
      from fl_pos_pos [OF this] show ?thesis by simp
    qed simp
    ultimately show ?thesis by simp
  next
    case 3
    with assms have "0 < - y" "- y \<le> - x" by simp_all
    from fl_pos_mono [OF this] show ?thesis by (simp add: fl_minus)
  qed
qed

lemma fl_nonneg: "0 \<le> x \<Longrightarrow> 0 \<le> fl x"
  using fl_mono [of 0 x] by simp

lemma trunc_mono:
  assumes "x \<le> y"
  shows "trunc x \<le> trunc y"
proof -
  consider "0 \<le> x" | "x < 0" "0 \<le> y" | "y < 0" by linarith
  then show ?thesis
  proof cases
    case 1
    with assms show ?thesis by (simp add: trunc_def floor_mono)
  next
    case 2
    then have "\<lceil>x\<rceil> \<le> 0" "0 \<le> \<lfloor>y\<rfloor>" by linarith+
    then have c: "\<lceil>x\<rceil> \<le> \<lfloor>y\<rfloor>" by (rule order_trans)
    have tx: "trunc x = \<lceil>x\<rceil>" and ty: "trunc y = \<lfloor>y\<rfloor>"
      using 2 by (simp_all add: trunc_def)
    show ?thesis unfolding tx ty by (rule c)
  next
    case 3
    with assms show ?thesis by (simp add: trunc_def ceiling_mono)
  qed
qed

lemma scaleEdge_mono:
  assumes "0 \<le> s" and "a \<le> b"
      and "scaleEdge (Finite s) a = Some a'" and "scaleEdge (Finite s) b = Some b'"
  shows "a' \<le> b'"
proof -
  have "of_int a * s \<le> of_int b * s"
    using assms(1,2) by (intro mult_right_mono) simp_all
  then have "trunc (fl (of_int a * s)) \<le> trunc (fl (of_int b * s))"
    by (intro trunc_mono fl_mono)
  with assms(3,4) show ?thesis
    by (auto simp add: scaleEdge_def to_double_def split: if_splits)
qed

text \<open>
  A motion rectangle of positive width and height is not null after the rescaling by a
  factor that is not negative.
\<close>

lemma rescaleRect_valid:
  assumes "isValid r" and "0 \<le> s" and "rescaleRect (Finite s) r = Some r'"
  shows "isValid r'" and "\<not> isNull r'"
proof -
  from assms(3) obtain t l rr b where
    e: "scaleEdge (Finite s) (r_top r) = Some t" "scaleEdge (Finite s) (r_left r) = Some l"
       "scaleEdge (Finite s) (r_right r) = Some rr" "scaleEdge (Finite s) (r_bottom r) = Some b"
    and r': "r' = \<lparr>r_left = l, r_top = t, r_right = rr, r_bottom = b\<rparr>"
    by (auto simp add: rescaleRect_def split: option.splits)
  from assms(1) have "r_left r \<le> r_right r" "r_top r \<le> r_bottom r"
    by (simp_all add: isValid_def)
  then have "l \<le> rr" "t \<le> b"
    using scaleEdge_mono [OF assms(2) _ e(2) e(3)] scaleEdge_mono [OF assms(2) _ e(1) e(4)]
    by simp_all
  then show "isValid r'" and "\<not> isNull r'"
    by (simp_all add: r' isValid_def isNull_def)
qed


lemma fl_of_int_pos:
  assumes "0 < n" and "n < 2 ^ 53"
  shows "fl (of_int n) = of_int n"
proof -
  define x :: rat where "x = of_int n"
  have x0: "0 < x" using assms(1) by (simp add: x_def)
  have "x < of_int (2 ^ 53)" unfolding x_def using assms(2) by (simp only: of_int_less_iff)
  then have x53: "x < 2 powi 53" by simp
  have "ilog2 x \<le> 52"
  proof (rule ccontr)
    assume "\<not> ilog2 x \<le> 52"
    then have "53 \<le> ilog2 x" by simp
    then have "(2::rat) powi 53 \<le> 2 powi (ilog2 x)"
      by (rule power_int_increasing) simp
    with ilog2_bounds [OF x0] x53 show False by linarith
  qed
  then obtain k where k: "ilog2 x - 52 = - int k"
    by (metis add.inverse_inverse diff_le_0_iff_le nonneg_int_cases neg_0_le_iff_le)
  have y: "x / 2 powi (ilog2 x - 52) = of_int (n * 2 ^ k)"
    unfolding k powi_neg_nat by (simp add: x_def)
  have "fl x = of_int (round_half_even (of_int (n * 2 ^ k))) * 2 powi (ilog2 x - 52)"
    unfolding fl_pos [OF x0] y ..
  also have "\<dots> = of_int (n * 2 ^ k) * (1 / 2 ^ k)"
    by (simp only: round_half_even_int k powi_neg_nat)
  also have "\<dots> = x" by (simp add: x_def)
  finally show ?thesis by (simp add: x_def)
qed

lemma fl_of_int:
  assumes "\<bar>n\<bar> < 2 ^ 53"
  shows "fl (of_int n) = of_int n"
proof -
  consider "0 < n" | "n = 0" | "n < 0" by linarith
  then show ?thesis
  proof cases
    case 1
    with assms show ?thesis by (intro fl_of_int_pos) simp_all
  next
    case 2
    then show ?thesis by simp
  next
    case 3
    with assms have "fl (of_int (- n)) = of_int (- n)"
      by (intro fl_of_int_pos) simp_all
    then show ?thesis by (simp add: fl_minus)
  qed
qed

lemma trunc_of_int [simp]: "trunc (of_int n) = n"
  by (simp add: trunc_def)

text \<open>The factor 1 leaves every edge in the range of \<open>int\<close> where it is.\<close>

lemma scaleEdge_one:
  assumes "- 2147483648 \<le> e" and "e \<le> 2147483647"
  shows "scaleEdge (Finite 1) e = Some e"
proof -
  from assms have "\<bar>e\<bar> < 2 ^ 53" by simp
  then have "fl (of_int e) = of_int e" by (rule fl_of_int)
  with assms show ?thesis
    by (simp add: scaleEdge_def to_double_def)
qed


lemma intersects_valid:
  assumes "isValid a" and "isValid b"
  shows "intersects a b \<longleftrightarrow>
           r_left a \<le> r_right b \<and> r_left b \<le> r_right a
         \<and> r_top a \<le> r_bottom b \<and> r_top b \<le> r_bottom a"
  using assms
  by (auto simp add: intersects_def isValid_def isNull_def r_width_def r_height_def Let_def)

text \<open>
  Two rectangles of positive width and height intersect, in the sense of
  \<open>QRect::intersects\<close>, exactly when they share a pixel.
\<close>

theorem intersects_common_pixel:
  assumes "isValid a" and "isValid b"
  shows "intersects a b \<longleftrightarrow> (\<exists>x y. r_contains a x y \<and> r_contains b x y)"
proof
  assume "intersects a b"
  with assms have i: "r_left a \<le> r_right b" "r_left b \<le> r_right a"
    "r_top a \<le> r_bottom b" "r_top b \<le> r_bottom a"
    by (simp_all add: intersects_valid)
  from assms i have "r_contains a (max (r_left a) (r_left b)) (max (r_top a) (r_top b))
      \<and> r_contains b (max (r_left a) (r_left b)) (max (r_top a) (r_top b))"
    by (simp add: r_contains_def isValid_def)
  then show "\<exists>x y. r_contains a x y \<and> r_contains b x y" by blast
next
  assume "\<exists>x y. r_contains a x y \<and> r_contains b x y"
  then obtain x y where "r_contains a x y" "r_contains b x y" by blast
  then show "intersects a b"
    unfolding intersects_valid [OF assms] r_contains_def by linarith
qed

lemma scaleToFeed_factor:
  assumes "scaleToFeed feedW feedH vf = Some (d, s)"
      and "0 \<le> feedW" and "0 \<le> feedH" and "0 < img_width vf" and "0 < img_height vf"
  shows "\<exists>q. s = Finite q \<and> 0 \<le> q"
proof (cases "feedW < img_width vf \<or> feedH < img_height vf")
  case False
  with assms(1) show ?thesis by (auto simp add: scaleToFeed_def)
next
  case True
  define ar where "ar = fl (of_int (img_width vf) / of_int (img_height vf))"
  have far: "ddiv (to_double (img_width vf)) (to_double (img_height vf)) = Finite ar"
    using assms(5) by (simp add: to_double_def ar_def)
  have ar0: "0 \<le> ar"
    unfolding ar_def using assms(4,5) by (intro fl_nonneg) simp
  from assms(1) True obtain newWidth where
    s: "s = ddiv (to_double newWidth) (to_double (img_width vf))" and nw: "0 \<le> newWidth"
  proof (cases "dless (ddiv (to_double feedW) (to_double feedH)) (Finite ar)")
    case True
    with assms(1) \<open>feedW < img_width vf \<or> feedH < img_height vf\<close> far
    have "s = ddiv (to_double feedW) (to_double (img_width vf))"
      by (auto simp add: scaleToFeed_def Let_def split: option.splits)
    with assms(2) that show ?thesis by blast
  next
    case False
    with assms(1) \<open>feedW < img_width vf \<or> feedH < img_height vf\<close> far
    obtain nw where t: "to_int (dmul (to_double feedH) (Finite ar)) = Some nw"
      and "s = ddiv (to_double nw) (to_double (img_width vf))"
      by (auto simp add: scaleToFeed_def Let_def split: option.splits)
    moreover have "0 \<le> nw"
    proof -
      have "0 \<le> fl (of_int feedH * ar)"
        using assms(3) ar0 by (intro fl_nonneg mult_nonneg_nonneg) simp_all
      then have "trunc 0 \<le> trunc (fl (of_int feedH * ar))" by (rule trunc_mono)
      with t show ?thesis
        by (auto simp add: to_double_def trunc_def split: if_splits)
    qed
    ultimately show ?thesis using that by blast
  qed
  have "s = Finite (fl (of_int newWidth / of_int (img_width vf)))"
    using assms(4) by (simp add: s to_double_def)
  moreover have "0 \<le> fl (of_int newWidth / of_int (img_width vf))"
    using nw assms(4) by (intro fl_nonneg) simp
  ultimately show ?thesis by blast
qed


text \<open>
  On a frame that is not null, in a feed whose width and height are not negative, a
  motion rectangle of positive width and height is rescaled to a rectangle of positive
  width and height: it passes the test of line 1319 and is drawn.
\<close>

theorem valid_motion_rectangle_stays_present:
  assumes "scaleToFeed feedW feedH vf = Some (d, s)"
      and "0 \<le> feedW" and "0 \<le> feedH" and "0 < img_width vf" and "0 < img_height vf"
      and "isValid mbr" and "rescaleRect s mbr = Some rect"
  shows "isValid rect \<and> \<not> isNull rect"
proof -
  from scaleToFeed_factor [OF assms(1-5)] obtain q where q: "s = Finite q" "0 \<le> q"
    by blast
  from rescaleRect_valid [OF assms(6) q(2)] assms(7) show ?thesis
    by (simp add: q(1))
qed

text \<open>
  A frame that fits the feed is not scaled, the factor is 1, and the motion rectangle
  keeps its coordinates.
\<close>

theorem unscaled_motion_rectangle:
  assumes "\<not> (feedW < img_width vf \<or> feedH < img_height vf)"
      and "list_all (\<lambda>e. - 2147483648 \<le> e \<and> e \<le> 2147483647)
             [r_left mbr, r_top mbr, r_right mbr, r_bottom mbr]"
  shows "scaleToFeed feedW feedH vf = Some (vf, Finite 1) \<and> rescaleRect (Finite 1) mbr = Some mbr"
  using assms by (simp add: scaleToFeed_def rescaleRect_def scaleEdge_one)

theorem intersects_common_pixel_witness:
  "isValid (QRect_xywh 100 100 34 34) \<and> isValid (QRect_xywh 80 45 160 90)
   \<and> intersects (QRect_xywh 100 100 34 34) (QRect_xywh 80 45 160 90)
   \<and> (\<exists>x y. r_contains (QRect_xywh 100 100 34 34) x y \<and> r_contains (QRect_xywh 80 45 160 90) x y)"
proof -
  have h1: "isValid (QRect_xywh 100 100 34 34)" and h2: "isValid (QRect_xywh 80 45 160 90)"
    by (simp_all add: isValid_def QRect_xywh_def)
  have h3: "intersects (QRect_xywh 100 100 34 34) (QRect_xywh 80 45 160 90)"
    by (simp add: example_hit)
  with intersects_common_pixel [OF h1 h2] h1 h2 show ?thesis
    by blast
qed

theorem valid_motion_rectangle_stays_present_witness:
  "scaleToFeed 640 360 example_frame =
     Some (example_frame\<lparr>img_width := 640, img_height := 360\<rparr>,
           Finite (6004799503160661 / 18014398509481984))
   \<and> 0 < img_width example_frame \<and> 0 < img_height example_frame
   \<and> isValid (QRect_xywh 300 300 100 100)
   \<and> rescaleRect (Finite (6004799503160661 / 18014398509481984)) (QRect_xywh 300 300 100 100) =
       Some (QRect_xywh 100 100 34 34)
   \<and> isValid (QRect_xywh 100 100 34 34) \<and> \<not> isNull (QRect_xywh 100 100 34 34)"
proof -
  have h1: "scaleToFeed 640 360 example_frame =
     Some (example_frame\<lparr>img_width := 640, img_height := 360\<rparr>,
           Finite (6004799503160661 / 18014398509481984))"
    by (rule scaleToFeed_1920_1080) (simp_all add: example_frame_def)
  have h2: "(0::int) \<le> 640" and h3: "(0::int) \<le> 360" by simp_all
  have h4: "0 < img_width example_frame" and h5: "0 < img_height example_frame"
    by (simp_all add: example_frame_def)
  have h6: "isValid (QRect_xywh 300 300 100 100)"
    by (simp add: isValid_def QRect_xywh_def)
  note h7 = rescale_300_300_100_100
  from valid_motion_rectangle_stays_present [OF h1 h2 h3 h4 h5 h6 h7] h1 h4 h5 h6 h7
  show ?thesis by (intro conjI) simp_all
qed

theorem unscaled_motion_rectangle_witness:
  "\<not> (1920 < img_width example_frame \<or> 1080 < img_height example_frame)
   \<and> scaleToFeed 1920 1080 example_frame = Some (example_frame, Finite 1)
   \<and> rescaleRect (Finite 1) (QRect_xywh 300 300 100 100) = Some (QRect_xywh 300 300 100 100)"
proof -
  have h1: "\<not> (1920 < img_width example_frame \<or> 1080 < img_height example_frame)"
    by (simp add: example_frame_def)
  have h2: "list_all (\<lambda>e. - 2147483648 \<le> e \<and> e \<le> 2147483647)
             [r_left (QRect_xywh 300 300 100 100), r_top (QRect_xywh 300 300 100 100),
              r_right (QRect_xywh 300 300 100 100), r_bottom (QRect_xywh 300 300 100 100)]"
    by (simp add: QRect_xywh_def)
  from unscaled_motion_rectangle [OF h1 h2] h1 show ?thesis
    by simp
qed

subsection \<open>The rendered frame\<close>








lemma recordingLabel_within:
  assumes "DrawText c r t \<in> set (recordingLabel out w)"
  shows "rect_within r out"
  using assms
  by (auto simp add: recordingLabel_def Let_def rect_within_def img_rect_def QRect_xywh_def
        split: if_splits)











end
